theory Spec2Isabelle
  imports Complex_Main "HOL-Library.Log_Nat"
begin

section \<open>Conventions of the embedding\<close>

text \<open>
  The simulator is JavaScript. Array lengths and loop counters are \<^typ>\<open>nat\<close> or
  \<^typ>\<open>int\<close>. Objects are records; an object that several containers refer to is
  stored once, under its id, and the containers hold the id.

  \<open>Math.random()\<close> is a stream of draws from \<open>[0,1)\<close>: a function from the
  position in the stream to the value drawn there. A call takes the head and
  leaves the tail.
\<close>

section \<open>Numbers\<close>

text \<open>
  A JavaScript number is an IEEE 754 double. A finite number is modelled as the
  real it denotes (\<^typ>\<open>real\<close>), and \<open>fl x\<close> is the double nearest to the real \<open>x\<close>,
  with ties going to the even significand: the value of the decimal literal
  \<open>x\<close>, and the result of \<open>+\<close>, \<open>-\<close>, \<open>*\<close>, \<open>/\<close> and \<open>Math.sqrt\<close> when \<open>x\<close> is the exact
  result. \<open>rne\<close> rounds a real to the nearest integer, ties to even. \<open>expo x\<close> is
  the binary exponent of \<open>x\<close>, but not less than \<open>emin\<close>: a double has a significand
  of 53 bits, and below \<open>2 powi emin\<close> the doubles are spaced \<open>2 powi (emin - 52)\<close>
  apart. A result of magnitude \<open>2 ^ 1024\<close> or more (which is \<open>Infinity\<close> in
  JavaScript) is outside the model.

  The rounding is written out in the reproduction test, in the predation test
  and its gains, and in eating, where a result proved below depends on the
  rounded value. The other functions are written with the exact operations; what
  is proved of them does not depend on the rounding: orders of events, counts,
  clamps with \<open>Math.min\<close> and \<open>Math.max\<close>, and instances in which a comparison
  holds by a margin far above the rounding error.
\<close>

definition rne :: "real \<Rightarrow> int" where
  "rne y =
     (let f = \<lfloor>y\<rfloor>; d = y - of_int f
      in if d < 1 / 2 then f else if 1 / 2 < d then f + 1 else if even f then f else f + 1)"

definition emin :: int where
  "emin = - 1022"

definition expo :: "real \<Rightarrow> int" where
  "expo x = max (bitlen \<lfloor>\<bar>x\<bar> * 2 powi (- emin)\<rfloor> - 1 + emin) emin"

definition fl :: "real \<Rightarrow> real" where
  "fl x = of_int (rne (x / 2 powi (expo x - 52))) * 2 powi (expo x - 52)"

section \<open>The random stream\<close>

type_synonym rng = "nat \<Rightarrow> real"

definition draw :: "rng \<Rightarrow> real \<times> rng" where
  "draw g = (g 0, \<lambda>n. g (Suc n))"

definition unit_draws :: "rng \<Rightarrow> bool" where
  "unit_draws g = (\<forall>n. 0 \<le> g n \<and> g n < 1)"

section \<open>Food particles (\<open>class Food\<close>)\<close>

record Food =
  posx :: real
  posy :: real
  radius :: real
  energyValue :: real
  consumed :: bool
  age :: real
  maxAge :: real
  pulsePhase :: real
  decay :: real

text \<open>
  \<open>constructor(x, y, size = null)\<close>. \<open>size || (2 + Math.random() * 4)\<close> takes the
  random radius when \<open>size\<close> is \<open>null\<close> or \<open>0\<close>; the draw is made only then. The
  colour string is a rendering attribute and is left out; the fields \<open>x\<close>, \<open>y\<close> are
  \<open>posx\<close>, \<open>posy\<close>; \<open>Math.PI\<close> is \<^term>\<open>pi\<close>.
\<close>

definition new_Food :: "real \<Rightarrow> real \<Rightarrow> real option \<Rightarrow> rng \<Rightarrow> Food \<times> rng" where
  "new_Food x0 y0 sz g =
     (let (radius0, g1) =
            (case sz of
               Some s \<Rightarrow> if s \<noteq> 0 then (s, g)
                         else (let (r, g') = draw g in (2 + r * 4, g'))
             | None \<Rightarrow> (let (r, g') = draw g in (2 + r * 4, g')));
          (r2, g2) = draw g1;
          (r3, g3) = draw g2
      in (\<lparr> posx = x0, posy = y0, radius = radius0, energyValue = radius0 * 8,
             consumed = False, age = 0, maxAge = 1800 + r2 * 1200,
             pulsePhase = r3 * pi * 2, decay = 1 \<rparr>, g3))"

text \<open>
  \<open>update()\<close> returns the flag and leaves the particle mutated: a consumed
  particle is not touched, any other one ages by one tick first.
\<close>

definition Food_update :: "Food \<Rightarrow> bool \<times> Food" where
  "Food_update f =
     (if consumed f then (False, f)
      else
        (let f1 = f\<lparr> age := age f + 1 \<rparr>;
             f2 = (if age f1 > maxAge f1 * 0.8
                   then f1\<lparr> decay := max 0 (1 - ((age f1 - maxAge f1 * 0.8) / (maxAge f1 * 0.2))) \<rparr>
                   else f1)
         in if age f2 > maxAge f2 then (False, f2) else (True, f2)))"

section \<open>The frame loop (\<open>Simulation.update\<close>)\<close>

text \<open>
  \<open>update()\<close> reads \<open>settings.simulationSpeed\<close>, calls \<open>updateSingleStep()\<close> in a
  counted loop and once more after a draw. The simulation object is a record of
  the speed setting, the random stream and everything else (\<open>world\<close>: tick, cells,
  viruses, colonies, food, statistics); \<open>updateSingleStep\<close> is any function on it.
\<close>

record 'w simulation =
  simulationSpeed :: real
  random_stream :: rng
  world :: 'w

text \<open>The loop \<open>for (let i = 0; i < updates; i++) this.updateSingleStep()\<close>.\<close>

primrec run_steps :: "('s \<Rightarrow> 's) \<Rightarrow> nat \<Rightarrow> 's \<Rightarrow> 's" where
  "run_steps step 0 s = s"
| "run_steps step (Suc n) s = run_steps step n (step s)"

text \<open>\<open>v % 1\<close>: JavaScript's remainder takes the sign of the dividend.\<close>

definition js_rem1 :: "real \<Rightarrow> real" where
  "js_rem1 v = (if 0 \<le> v then v - of_int \<lfloor>v\<rfloor> else v - of_int \<lceil>v\<rceil>)"

definition update :: "('w simulation \<Rightarrow> 'w simulation) \<Rightarrow> 'w simulation \<Rightarrow> 'w simulation" where
  "update updateSingleStep sim =
     (if simulationSpeed sim \<le> 0 then sim
      else
        (let speedMultiplier = simulationSpeed sim;
             updates = max 1 \<lfloor>speedMultiplier\<rfloor>;
             partialUpdate = js_rem1 speedMultiplier;
             sim1 = run_steps updateSingleStep (nat updates) sim
         in if partialUpdate > 0
            then (let (r, g) = draw (random_stream sim1);
                      sim2 = sim1\<lparr> random_stream := g \<rparr>
                  in if r < partialUpdate then updateSingleStep sim2 else sim2)
            else sim1))"

section \<open>The entity model (\<open>class Cell\<close>, \<open>class Colony\<close>)\<close>

text \<open>
  The categorical traits are strings chosen from fixed arrays
  (\<open>randomShape\<close>, \<open>randomDefenseType\<close>, \<open>randomSpecialAbility\<close>,
  \<open>randomMetabolismType\<close>, \<open>randomSocialBehavior\<close>); each array is a datatype.
  The social behaviour \<open>'territorial'\<close> is \<open>territorial_social\<close>, to keep it apart
  from the special ability of the same spelling.
\<close>

datatype shape = circle | triangle | square | hexagon | oval | star | diamond

datatype defenseType =
  spikes | poison | armor | regen | camo | shield | electric | magnetic | phase | swarm
  | mimic | explosive | viral | barrier | reflect

datatype specialAbility =
  none | photosynthesis | parasite | pack_hunter | territorial | migratory | burrowing
  | leaping | splitting | fusion | time_dilation | energy_vampire | shape_shift | invisibility

datatype metabolismType = normal | efficient | burst | parasitic | photosynthetic

datatype socialBehavior = solitary | cooperative | aggressive | territorial_social | pack

datatype lifestage = juvenile | adult | elder

datatype colonyRole = sedentary | adventurer | builder

text \<open>
  \<open>xs[Math.floor(Math.random() * xs.length)]\<close>: an index outside the array reads
  \<open>undefined\<close>, which is \<open>None\<close>. A categorical trait is therefore an option.
\<close>

definition pick :: "'a list \<Rightarrow> real \<Rightarrow> 'a option" where
  "pick xs r =
     (let i = \<lfloor>r * real (length xs)\<rfloor>
      in if 0 \<le> i \<and> nat i < length xs then Some (xs ! nat i) else None)"

definition shapes :: "shape list" where
  "shapes = [circle, triangle, square, hexagon, oval, star, diamond]"

definition defenseTypes :: "defenseType list" where
  "defenseTypes = [spikes, poison, armor, regen, camo, shield, electric, magnetic, phase,
                   swarm, mimic, explosive, viral, barrier, reflect]"

definition specialAbilities :: "specialAbility list" where
  "specialAbilities = [none, photosynthesis, parasite, pack_hunter, territorial, migratory,
                       burrowing, leaping, splitting, fusion, time_dilation, energy_vampire,
                       shape_shift, invisibility]"

definition metabolismTypes :: "metabolismType list" where
  "metabolismTypes = [normal, efficient, burst, parasitic, photosynthetic]"

definition socialBehaviors :: "socialBehavior list" where
  "socialBehaviors = [solitary, cooperative, aggressive, territorial_social, pack]"

text \<open>
  \<open>this.traits\<close>. The field \<open>size\<close> is \<open>size_trait\<close>. \<open>aggression\<close> is read by the
  interaction code with a default (\<open>traits.aggression || 0.3\<close>) and is set by no
  constructor, so it is optional, and so are \<open>socialIntelligence\<close> and \<open>altruism\<close>;
  \<open>generation\<close> is present in a trait object once \<open>mutate\<close> has written it.
\<close>

record traits =
  health :: real
  maxHealth :: real
  size_trait :: real
  speed :: real
  energy :: real
  maxEnergy :: real
  shape :: "shape option"
  defenseType :: "defenseType option"
  specialAbility :: "specialAbility option"
  metabolismType :: "metabolismType option"
  socialBehavior :: "socialBehavior option"
  lifestage :: lifestage
  temperatureTolerance :: real
  acidTolerance :: real
  radiationResistance :: real
  visionRange :: real
  communicationRange :: real
  pheromoneProduction :: real
  toxinResistance :: real
  magneticSensitivity :: real
  electrogenesis :: real
  aggression :: "real option"
  socialIntelligence :: "real option"
  altruism :: "real option"
  generation :: "int option"

text \<open>An entry of \<open>particleEffects\<close> (a visual effect).\<close>

record particle =
  particle_x :: real
  particle_y :: real
  particle_vx :: real
  particle_vy :: real
  particle_size :: real
  life :: real
  maxLife :: real
  color :: string
  kind :: string

record territory =
  tx :: real
  ty :: real
  tradius :: real

text \<open>
  The fields of \<open>defenseStates\<close> that the functions modelled here read:
  \<open>poisonAura\<close>, \<open>territoryRadius\<close> and \<open>packMembers\<close> (the ids of the pack).
\<close>

record defenseStates =
  poisonAura :: real
  territoryRadius :: real
  packMembers :: "nat list"

text \<open>
  A cell. Cells are objects that the cell array, the colonies and other cells
  refer to; a reference is the cell's id (\<open>cell_id\<close>, the field \<open>id\<close>), which the data
  model takes to be unique, and the cells live in a store indexed by it. \<open>colony\<close>
  is the id of the cell's colony or \<open>None\<close> for \<open>null\<close>; \<open>target\<close> is the id of the
  targeted cell; \<open>bonds\<close> is the array of bonded ids.
\<close>

record Cell =
  cell_id :: nat
  posx :: real
  posy :: real
  vx :: real
  vy :: real
  traits :: traits
  radius :: real
  age :: real
  generation :: int
  reproduced :: bool
  target :: "nat option"
  lastReproduction :: real
  lastFoodTime :: "real option"
  territory :: "territory option"
  colony :: "nat option"
  bonds :: "nat list"
  maxBonds :: nat
  bondStrength :: "nat \<rightharpoonup> real"
  isColonyFounder :: bool
  colonyRole :: colonyRole
  opacity :: real
  defenseStates :: defenseStates
  particleEffects :: "particle list"

text \<open>
  An entry of \<open>Colony.bonds\<close>, a \<open>Map\<close> from the bond key to
  \<open>{cell1, cell2, strength, age}\<close>.
\<close>

record bond =
  cell1 :: nat
  cell2 :: nat
  strength :: real
  age :: real

text \<open>
  A colony: \<open>colony_id\<close> stands for the object, \<open>members\<close> is the array of member cells (their ids), \<open>bonds\<close> the \<open>Map\<close> in
  insertion order, \<open>sharedEnergy\<close> is \<open>sharedResources.energy\<close>. The drawing data
  \<open>structure\<close> (centre and radius), which \<open>updateStructure()\<close> recomputes and only
  \<open>render\<close> reads, is left out, and so are the calls of \<open>updateStructure()\<close>.
\<close>

record Colony =
  colony_id :: nat
  members :: "nat list"
  founder :: nat
  bonds :: "(string \<times> bond) list"
  sharedEnergy :: real

section \<open>Reproduction (\<open>Cell.considerReproduction\<close>)\<close>








section \<open>Mutation (\<open>Cell.mutate\<close>)\<close>

text \<open>
  \<open>if (Math.random() < p) { body }\<close> on the pair of the trait object being built
  and the random stream: one draw for the test, and the body's own draws after
  it when the test succeeds.
\<close>

definition mutation_step ::
  "real \<Rightarrow> (traits \<Rightarrow> rng \<Rightarrow> traits \<times> rng) \<Rightarrow> traits \<times> rng \<Rightarrow> traits \<times> rng" where
  "mutation_step p body tg =
     (let (r, g1) = draw (snd tg) in if r < p then body (fst tg) g1 else (fst tg, g1))"

text \<open>The bodies, in the order of the source (cell.js 2506-2599).\<close>

definition mutate_size :: "traits \<Rightarrow> rng \<Rightarrow> traits \<times> rng" where
  "mutate_size t g =
     (let (r, g') = draw g
      in (t\<lparr> size_trait := max 4 (min 20 (size_trait t + (r - 0.5) * 4)) \<rparr>, g'))"

definition mutate_speed :: "traits \<Rightarrow> rng \<Rightarrow> traits \<times> rng" where
  "mutate_speed t g =
     (let (r, g') = draw g
      in (t\<lparr> speed := max 0.2 (min 3.0 (speed t + (r - 0.5) * 0.6)) \<rparr>, g'))"

definition mutate_maxHealth :: "traits \<Rightarrow> rng \<Rightarrow> traits \<times> rng" where
  "mutate_maxHealth t g =
     (let (r, g') = draw g;
          t1 = t\<lparr> maxHealth := max 40 (min 160 (maxHealth t + (r - 0.5) * 20)) \<rparr>
      in (t1\<lparr> health := maxHealth t1 \<rparr>, g'))"

definition mutate_maxEnergy :: "traits \<Rightarrow> rng \<Rightarrow> traits \<times> rng" where
  "mutate_maxEnergy t g =
     (let (r, g') = draw g;
          t1 = t\<lparr> maxEnergy := max 40 (min 120 (maxEnergy t + (r - 0.5) * 20)) \<rparr>
      in (t1\<lparr> energy := maxEnergy t1 * 0.8 \<rparr>, g'))"

definition mutate_shape :: "traits \<Rightarrow> rng \<Rightarrow> traits \<times> rng" where
  "mutate_shape t g = (let (r, g') = draw g in (t\<lparr> shape := pick shapes r \<rparr>, g'))"

definition mutate_defenseType :: "traits \<Rightarrow> rng \<Rightarrow> traits \<times> rng" where
  "mutate_defenseType t g =
     (let (r, g') = draw g in (t\<lparr> defenseType := pick defenseTypes r \<rparr>, g'))"

definition mutate_specialAbility :: "traits \<Rightarrow> rng \<Rightarrow> traits \<times> rng" where
  "mutate_specialAbility t g =
     (let (r, g') = draw g in (t\<lparr> specialAbility := pick specialAbilities r \<rparr>, g'))"

definition mutate_metabolismType :: "traits \<Rightarrow> rng \<Rightarrow> traits \<times> rng" where
  "mutate_metabolismType t g =
     (let (r, g') = draw g in (t\<lparr> metabolismType := pick metabolismTypes r \<rparr>, g'))"

definition mutate_socialBehavior :: "traits \<Rightarrow> rng \<Rightarrow> traits \<times> rng" where
  "mutate_socialBehavior t g =
     (let (r, g') = draw g in (t\<lparr> socialBehavior := pick socialBehaviors r \<rparr>, g'))"

definition mutate_temperatureTolerance :: "traits \<Rightarrow> rng \<Rightarrow> traits \<times> rng" where
  "mutate_temperatureTolerance t g =
     (let (r, g') = draw g
      in (t\<lparr> temperatureTolerance :=
               max 0.1 (min 0.9 (temperatureTolerance t + (r - 0.5) * 0.2)) \<rparr>, g'))"

definition mutate_acidTolerance :: "traits \<Rightarrow> rng \<Rightarrow> traits \<times> rng" where
  "mutate_acidTolerance t g =
     (let (r, g') = draw g
      in (t\<lparr> acidTolerance := max 0.1 (min 0.9 (acidTolerance t + (r - 0.5) * 0.2)) \<rparr>, g'))"

definition mutate_radiationResistance :: "traits \<Rightarrow> rng \<Rightarrow> traits \<times> rng" where
  "mutate_radiationResistance t g =
     (let (r, g') = draw g
      in (t\<lparr> radiationResistance :=
               max 0.05 (min 0.8 (radiationResistance t + (r - 0.5) * 0.15)) \<rparr>, g'))"

definition mutate_visionRange :: "traits \<Rightarrow> rng \<Rightarrow> traits \<times> rng" where
  "mutate_visionRange t g =
     (let (r, g') = draw g
      in (t\<lparr> visionRange := max 20 (min 120 (visionRange t + (r - 0.5) * 20)) \<rparr>, g'))"

definition mutate_communicationRange :: "traits \<Rightarrow> rng \<Rightarrow> traits \<times> rng" where
  "mutate_communicationRange t g =
     (let (r, g') = draw g
      in (t\<lparr> communicationRange :=
               max 15 (min 100 (communicationRange t + (r - 0.5) * 15)) \<rparr>, g'))"

definition mutate_pheromoneProduction :: "traits \<Rightarrow> rng \<Rightarrow> traits \<times> rng" where
  "mutate_pheromoneProduction t g =
     (let (r, g') = draw g
      in (t\<lparr> pheromoneProduction :=
               max 0.0 (min 0.8 (pheromoneProduction t + (r - 0.5) * 0.2)) \<rparr>, g'))"

definition mutate_toxinResistance :: "traits \<Rightarrow> rng \<Rightarrow> traits \<times> rng" where
  "mutate_toxinResistance t g =
     (let (r, g') = draw g
      in (t\<lparr> toxinResistance := max 0.0 (min 0.9 (toxinResistance t + (r - 0.5) * 0.2)) \<rparr>, g'))"

definition mutate_magneticSensitivity :: "traits \<Rightarrow> rng \<Rightarrow> traits \<times> rng" where
  "mutate_magneticSensitivity t g =
     (let (r, g') = draw g
      in (t\<lparr> magneticSensitivity :=
               max 0.0 (min 0.8 (magneticSensitivity t + (r - 0.5) * 0.15)) \<rparr>, g'))"

definition mutate_electrogenesis :: "traits \<Rightarrow> rng \<Rightarrow> traits \<times> rng" where
  "mutate_electrogenesis t g =
     (let (r, g') = draw g
      in (t\<lparr> electrogenesis := max 0.0 (min 0.6 (electrogenesis t + (r - 0.5) * 0.1)) \<rparr>, g'))"

text \<open>
  \<open>mutate(mutationRate)\<close>: the copy of \<open>this.traits\<close> with \<open>generation\<close> set from the
  cell's own counter, then the eighteen tests in sequence. It returns the new
  trait object and the rest of the random stream.
\<close>

definition mutate :: "real \<Rightarrow> Cell \<Rightarrow> rng \<Rightarrow> traits \<times> rng" where
  "mutate mutationRate c g =
     (let tg0 = ((traits c)\<lparr> traits.generation := Some (Cell.generation c + 1) \<rparr>, g);
          tg1 = mutation_step mutationRate mutate_size tg0;
          tg2 = mutation_step mutationRate mutate_speed tg1;
          tg3 = mutation_step mutationRate mutate_maxHealth tg2;
          tg4 = mutation_step mutationRate mutate_maxEnergy tg3;
          tg5 = mutation_step (mutationRate * 0.3) mutate_shape tg4;
          tg6 = mutation_step (mutationRate * 0.4) mutate_defenseType tg5;
          tg7 = mutation_step (mutationRate * 0.3) mutate_specialAbility tg6;
          tg8 = mutation_step (mutationRate * 0.2) mutate_metabolismType tg7;
          tg9 = mutation_step (mutationRate * 0.25) mutate_socialBehavior tg8;
          tg10 = mutation_step mutationRate mutate_temperatureTolerance tg9;
          tg11 = mutation_step mutationRate mutate_acidTolerance tg10;
          tg12 = mutation_step mutationRate mutate_radiationResistance tg11;
          tg13 = mutation_step mutationRate mutate_visionRange tg12;
          tg14 = mutation_step mutationRate mutate_communicationRange tg13;
          tg15 = mutation_step mutationRate mutate_pheromoneProduction tg14;
          tg16 = mutation_step mutationRate mutate_toxinResistance tg15;
          tg17 = mutation_step mutationRate mutate_magneticSensitivity tg16;
          tg18 = mutation_step mutationRate mutate_electrogenesis tg17
      in tg18)"

section \<open>Predation (\<open>Simulation.canPredate\<close>, \<open>Simulation.handlePredation\<close>)\<close>

text \<open>
  Some quotients of the simulation code can have a zero divisor. A JavaScript
  number that may be non-finite is a \<open>jsnum\<close>; the sign of a zero is not
  modelled (a zero divisor counts as \<open>+0\<close>). The operations below return the
  exact result; \<open>js_round\<close> rounds it.
\<close>

datatype jsnum = Fin real | PosInf | NegInf | NaN

definition js_div :: "real \<Rightarrow> real \<Rightarrow> jsnum" where
  "js_div a b =
     (if b \<noteq> 0 then Fin (a / b)
      else if 0 < a then PosInf else if a < 0 then NegInf else NaN)"







fun js_below :: "jsnum \<Rightarrow> real \<Rightarrow> bool" where
  "js_below (Fin a) r = (a < r)"
| "js_below PosInf r = False"
| "js_below NegInf r = True"
| "js_below NaN r = False"


text \<open>\<open>v || d\<close> for an optional number: \<open>undefined\<close> and \<open>0\<close> give the default.\<close>

definition or_default :: "real option \<Rightarrow> real \<Rightarrow> real" where
  "or_default v d = (case v of None \<Rightarrow> d | Some a \<Rightarrow> if a = 0 then d else a)"

text \<open>\<open>Cell.collidesWith\<close> (cell.js 1760-1765).\<close>

definition collidesWith :: "Cell \<Rightarrow> Cell \<Rightarrow> bool" where
  "collidesWith c other =
     (let dx = Cell.posx other - Cell.posx c; dy = Cell.posy other - Cell.posy c;
          distance = sqrt (dx * dx + dy * dy)
      in distance < Cell.radius c + Cell.radius other)"

text \<open>
  The settings and counters of the simulation that the interaction and the
  selection read.
\<close>

record settings =
  minPopulation :: int
  maxPopulation :: real
  predationReproduction :: bool


text \<open>
  \<open>canPredate(predator, prey)\<close> (part_000 2104-2126), test by test. The default of
  \<open>traits.aggression || 0.3\<close> is taken by every cell that the program builds,
  since no statement of the repository writes \<open>traits.aggression\<close>.
\<close>

definition canPredate :: "Cell \<Rightarrow> Cell \<Rightarrow> bool" where
  "canPredate predator prey =
     (if size_trait (traits predator) < fl (size_trait (traits prey) * 2.0) then False
      else if health (traits predator) < fl (health (traits prey) * fl 1.2) then False
      else if or_default (aggression (traits predator)) (fl 0.3) < fl 0.4 then False
      else if energy (traits predator) < fl (maxEnergy (traits predator) * fl 0.6) then False
      else if defenseType (traits prey) = Some explosive then False
      else if defenseType (traits prey) = Some poison
              \<and> toxinResistance (traits predator) < fl 0.7 then False
      else if specialAbility (traits predator) = Some parasite then True
      else if specialAbility (traits predator) = Some pack_hunter
              \<and> length (packMembers (defenseStates predator)) > 0 then True
      else True)"


section \<open>Operations on health and energy\<close>







text \<open>
  \<open>Cell.canEat\<close> and \<open>Cell.eat\<close> (cell.js 1743-1758). \<open>eat\<close> adds the energy value with
  \<open>+=\<close>, which rounds the sum, and then clamps with \<open>Math.min\<close>.
\<close>

definition canEat :: "Cell \<Rightarrow> Food \<Rightarrow> bool" where
  "canEat c f =
     (let dx = Food.posx f - Cell.posx c; dy = Food.posy f - Cell.posy c;
          distance = sqrt (dx * dx + dy * dy)
      in distance < Cell.radius c + Food.radius f)"

definition eat :: "Cell \<Rightarrow> Food \<Rightarrow> bool \<times> Cell \<times> Food" where
  "eat c f =
     (if canEat c f \<and> \<not> consumed f
      then (True,
            c\<lparr> traits := (traits c)
                 \<lparr> energy := min (fl (energy (traits c) + energyValue f))
                                  (maxEnergy (traits c)) \<rparr> \<rparr>,
            f\<lparr> consumed := True \<rparr>)
      else (False, c, f))"

section \<open>Bonds (\<open>class Colony\<close>, \<open>Cell.updateColonyBehavior\<close>)\<close>


text \<open>
  The key of a bond is
  \<open>`${Math.min(cell1.id, cell2.id)}_${Math.max(cell1.id, cell2.id)}`\<close>. The ids that
  the constructor gives are strings of the form \<open>cell_<time>_<number>\<close> (cell.js
  209), of which \<open>Math.min\<close> and \<open>Math.max\<close> make \<open>NaN\<close>: every pair has the same key.
\<close>

definition bondKey :: "nat \<Rightarrow> nat \<Rightarrow> string" where
  "bondKey c1 c2 = ''NaN_NaN''"

text \<open>\<open>createBond(cell1, cell2)\<close> (cell.js 92-106).\<close>

definition createBond ::
  "Colony \<Rightarrow> (nat \<Rightarrow> Cell) \<Rightarrow> nat \<Rightarrow> nat \<Rightarrow> bool \<times> Colony \<times> (nat \<Rightarrow> Cell)" where
  "createBond col heap c1 c2 =
     (if c1 \<notin> set (members col) \<or> c2 \<notin> set (members col) then (False, col, heap)
      else if length (Cell.bonds (heap c1)) \<ge> maxBonds (heap c1)
              \<or> length (Cell.bonds (heap c2)) \<ge> maxBonds (heap c2) then (False, col, heap)
      else if bondKey c1 c2 \<in> fst ` set (Colony.bonds col) then (False, col, heap)
      else
        (let col' = col\<lparr> Colony.bonds := Colony.bonds col @
                      [(bondKey c1 c2, \<lparr> cell1 = c1, cell2 = c2, strength = 1.0, age = 0 \<rparr>)] \<rparr>;
             h1 = heap(c1 := (heap c1)\<lparr> Cell.bonds := Cell.bonds (heap c1) @ [c2] \<rparr>);
             h2 = h1(c2 := (h1 c2)\<lparr> Cell.bonds := Cell.bonds (h1 c2) @ [c1] \<rparr>);
             h3 = h2(c1 := (h2 c1)\<lparr> bondStrength := (bondStrength (h2 c1))(c2 \<mapsto> 1.0) \<rparr>);
             h4 = h3(c2 := (h3 c2)\<lparr> bondStrength := (bondStrength (h3 c2))(c1 \<mapsto> 1.0) \<rparr>)
         in (True, col', h4)))"

text \<open>\<open>addMember(cell, bondWith)\<close> (cell.js 56-69); \<open>bondWith\<close> may be missing.\<close>

definition addMember ::
  "Colony \<Rightarrow> (nat \<Rightarrow> Cell) \<Rightarrow> nat \<Rightarrow> nat option \<Rightarrow> bool \<times> Colony \<times> (nat \<Rightarrow> Cell)" where
  "addMember col heap c bondWith =
     (if c \<in> set (members col) then (False, col, heap)
      else if length (members col) \<ge> 20 then (False, col, heap)
      else
        (let col1 = col\<lparr> members := members col @ [c] \<rparr>;
             h1 = heap(c := (heap c)\<lparr> colony := Some (colony_id col) \<rparr>);
             (col2, h2) = (case bondWith of
                             Some b \<Rightarrow> if b \<in> set (members col1)
                                       then snd (createBond col1 h1 c b) else (col1, h1)
                           | None \<Rightarrow> (col1, h1))
         in (True, col2, h2)))"


text \<open>\<open>Cell.distanceTo\<close> (cell.js 1325-1327).\<close>

definition distanceTo :: "Cell \<Rightarrow> Cell \<Rightarrow> real" where
  "distanceTo c other =
     sqrt ((Cell.posx other - Cell.posx c) ^ 2 + (Cell.posy other - Cell.posy c) ^ 2)"

text \<open>
  The bond management at the end of \<open>Cell.updateColonyBehavior\<close> (cell.js
  1275-1303), for the colony of the cell: one call of the callback of
  \<open>this.colony.bonds.forEach\<close> on an entry, and the loop over the entries. The
  callback changes and deletes only the entry it is called on.
\<close>

definition manage_bond :: "Colony \<times> (nat \<Rightarrow> Cell) \<Rightarrow> string \<times> bond \<Rightarrow> Colony \<times> (nat \<Rightarrow> Cell)" where
  "manage_bond ch entry =
     (let col = fst ch; heap = snd ch; key = fst entry;
          b1 = (snd entry)\<lparr> bond.age := bond.age (snd entry) + 1 \<rparr>;
          store = (\<lambda>b. col\<lparr> Colony.bonds :=
                     map (\<lambda>(k, v). if k = key then (k, b) else (k, v)) (Colony.bonds col) \<rparr>)
      in if cell1 b1 \<in> set (members col) \<and> cell2 b1 \<in> set (members col)
         then
           (let c1 = cell1 b1; c2 = cell2 b1;
                distance = distanceTo (heap c1) (heap c2);
                maxDistance = (if colonyRole (heap c1) = sedentary \<and> colonyRole (heap c2) = sedentary
                               then 60 else 100 :: real);
                b2 = (if distance > maxDistance then b1\<lparr> strength := strength b1 - 0.015 \<rparr>
                      else if distance < 30 then b1\<lparr> strength := min 1.0 (strength b1 + 0.01) \<rparr>
                      else b1)
            in if strength b2 \<le> 0
               then
                 (let col' = col\<lparr> Colony.bonds := filter (\<lambda>(k, v). k \<noteq> key) (Colony.bonds col) \<rparr>;
                      h1 = heap(c1 := (heap c1)\<lparr> Cell.bonds := filter (\<lambda>i. i \<noteq> c2) (Cell.bonds (heap c1)) \<rparr>);
                      h2 = h1(c2 := (h1 c2)\<lparr> Cell.bonds := filter (\<lambda>i. i \<noteq> c1) (Cell.bonds (h1 c2)) \<rparr>);
                      h3 = h2(c1 := (h2 c1)\<lparr> bondStrength := (bondStrength (h2 c1))(c2 := None) \<rparr>);
                      h4 = h3(c2 := (h3 c2)\<lparr> bondStrength := (bondStrength (h3 c2))(c1 := None) \<rparr>)
                  in (col', h4))
               else (store b2, heap))
         else (store b1, heap))"

definition manage_bonds :: "Colony \<Rightarrow> (nat \<Rightarrow> Cell) \<Rightarrow> Colony \<times> (nat \<Rightarrow> Cell)" where
  "manage_bonds col heap = foldl manage_bond (col, heap) (Colony.bonds col)"

text \<open>
  Bond symmetry over the cells \<open>ids\<close>: whenever the bond array of a cell \<open>a\<close> of
  \<open>ids\<close> holds an id \<open>b\<close>, the bond array of \<open>b\<close> holds \<open>a\<close>.
\<close>

definition bond_symmetric :: "nat list \<Rightarrow> (nat \<Rightarrow> Cell) \<Rightarrow> bool" where
  "bond_symmetric ids heap =
     list_all (\<lambda>a. list_all (\<lambda>b. a \<in> set (Cell.bonds (heap b))) (Cell.bonds (heap a))) ids"

section \<open>Food from a dead cell (\<open>FoodManager.spawnFood\<close>, \<open>spawnFromDeath\<close>)\<close>

text \<open>\<open>getFood()\<close>: the particles that are not consumed.\<close>

definition getFood :: "Food list \<Rightarrow> Food list" where
  "getFood fs = filter (\<lambda>particle. \<not> consumed particle) fs"

text \<open>
  \<open>spawnFood(x = null, y = null)\<close> on a field of the given width and height: a
  coordinate that is \<open>null\<close> is drawn, then the size class and the size are drawn,
  and the particle is pushed.
\<close>

definition spawnFood ::
  "real \<Rightarrow> real \<Rightarrow> real option \<Rightarrow> real option \<Rightarrow> Food list \<Rightarrow> rng \<Rightarrow> Food list \<times> rng" where
  "spawnFood w h xo yo fs g =
     (let (spawnX, g1) = (case xo of Some v \<Rightarrow> (v, g)
                          | None \<Rightarrow> (let (r, g') = draw g in (r * w, g')));
          (spawnY, g2) = (case yo of Some v \<Rightarrow> (v, g1)
                          | None \<Rightarrow> (let (r, g') = draw g1 in (r * h, g')));
          (rand, g3) = draw g2;
          (r, g4) = draw g3;
          sz = (if rand < 0.6 then 2 + r * 2 else if rand < 0.9 then 3 + r * 3 else 5 + r * 3);
          (newFood, g5) = new_Food spawnX spawnY (Some sz) g4
      in (fs @ [newFood], g5))"

text \<open>
  The loop of \<open>spawnFromDeath\<close>: \<open>k\<close> iterations are left, \<open>i\<close> is the loop index and
  \<open>nutrientCount\<close> the bound.
\<close>

primrec spawn_nutrients ::
  "nat \<Rightarrow> nat \<Rightarrow> int \<Rightarrow> real \<Rightarrow> real \<Rightarrow> real \<Rightarrow> real \<Rightarrow> real \<Rightarrow> Food list \<Rightarrow> rng
     \<Rightarrow> Food list \<times> rng" where
  "spawn_nutrients 0 i nutrientCount w h x0 y0 cellSize fs g = (fs, g)"
| "spawn_nutrients (Suc k) i nutrientCount w h x0 y0 cellSize fs g =
     (let (r1, g1) = draw g;
          angle = (real i / of_int nutrientCount) * pi * 2 + r1;
          (r2, g2) = draw g1;
          distance = r2 * cellSize * 2;
          spawnX = max 10 (min (w - 10) (x0 + cos angle * distance));
          spawnY = max 10 (min (h - 10) (y0 + sin angle * distance));
          (fs', g3) = spawnFood w h (Some spawnX) (Some spawnY) fs g2
      in spawn_nutrients k (Suc i) nutrientCount w h x0 y0 cellSize fs' g3)"

definition spawnFromDeath ::
  "real \<Rightarrow> real \<Rightarrow> real \<Rightarrow> real \<Rightarrow> real \<Rightarrow> Food list \<Rightarrow> rng \<Rightarrow> Food list \<times> rng" where
  "spawnFromDeath w h x0 y0 cellSize fs g =
     (let nutrientCount = \<lfloor>cellSize / 4\<rfloor> + 1
      in spawn_nutrients (nat nutrientCount) 0 nutrientCount w h x0 y0 cellSize fs g)"

section \<open>Natural selection (\<open>Simulation.applyNaturalSelection\<close>)\<close>

text \<open>
  The simulation of part_000 (the class of lines 1308-3127), as far as the
  selection reads and writes it: the cell array, the food array of the food
  manager with the size of its field, the number of viruses, the settings, the
  toxicity and radiation that \<open>environment.getEnvironmentalPressures()\<close> reports,
  \<open>stats.averageFitness\<close>, and \<open>simulationTime\<close>, a property that the class never
  assigns (\<open>None\<close> is \<open>undefined\<close>). A cell in the array is the cell object itself;
  two entries are the same object when they have the same id.
\<close>

record sim =
  cells :: "Cell list"
  food :: "Food list"
  width :: real
  height :: real
  viruses_length :: nat
  settings :: settings
  toxicity :: real
  radiation :: real
  averageFitness :: real
  simulationTime :: "real option"

text \<open>\<open>v || d\<close> for a number that is always defined.\<close>

definition num_or :: "real \<Rightarrow> real \<Rightarrow> real" where
  "num_or v d = (if v = 0 then d else v)"

text \<open>
  The three protections (part_000 2711-2726); \<open>fitness\<close> is the score that
  \<open>calculateEvolutionaryFitness\<close> gave the cell, \<open>colonies\<close> the colony objects.
  \<open>undefined - n\<close> is \<open>NaN\<close>, and \<open>NaN < 200\<close> is false.
\<close>

definition protected ::
  "(Cell \<Rightarrow> real) \<Rightarrow> (nat \<Rightarrow> Colony) \<Rightarrow> sim \<Rightarrow> Cell \<Rightarrow> bool" where
  "protected fitness colonies s c =
     ((reproduced c \<and> (case simulationTime s of
                          None \<Rightarrow> False
                        | Some t \<Rightarrow> t - num_or (lastReproduction c) 0 < 200))
      \<or> (case colony c of Some k \<Rightarrow> length (members (colonies k)) \<ge> 5 | None \<Rightarrow> False)
      \<or> fitness c > num_or (averageFitness s) 1 * 1.5)"

text \<open>\<open>xs.slice(-k)\<close> for \<open>k \<ge> 0\<close>: the last \<open>k\<close> entries, and all of them when \<open>k = 0\<close>.\<close>

definition slice_last :: "nat \<Rightarrow> 'a list \<Rightarrow> 'a list" where
  "slice_last k xs = (if k = 0 then xs else drop (length xs - k) xs)"

text \<open>\<open>xs.splice(j, 1)\<close>.\<close>

definition splice1 :: "nat \<Rightarrow> 'a list \<Rightarrow> 'a list" where
  "splice1 j xs = take j xs @ drop (Suc j) xs"

text \<open>The weights of the candidates, one draw each, in array order.\<close>

primrec fitnessWeights :: "(Cell \<Rightarrow> real) \<Rightarrow> real \<Rightarrow> Cell list \<Rightarrow> rng \<Rightarrow> real list \<times> rng" where
  "fitnessWeights fitness avgFitness [] g = ([], g)"
| "fitnessWeights fitness avgFitness (c # cs) g =
     (let (r, g1) = draw g;
          w = max 0.1 (avgFitness - fitness c + r * 10);
          (ws, g2) = fitnessWeights fitness avgFitness cs g1
      in (w # ws, g2))"

text \<open>
  The inner loop \<open>for (j ...) { randomValue -= fitnessWeights[j]; if (randomValue <= 0) ... break }\<close>:
  the index it stops at, or \<open>None\<close> when it runs off the end.
\<close>

primrec pick_weighted :: "real \<Rightarrow> real list \<Rightarrow> nat \<Rightarrow> nat option" where
  "pick_weighted randomValue [] j = None"
| "pick_weighted randomValue (w # ws) j =
     (if randomValue - w \<le> 0 then Some j else pick_weighted (randomValue - w) ws (Suc j))"

text \<open>
  The outer loop \<open>for (i = 0; i < cellsToRemove && removalCandidates.length > 0; i++)\<close>
  with \<open>k\<close> iterations left.
\<close>

primrec select_removed ::
  "nat \<Rightarrow> (Cell \<Rightarrow> real) \<Rightarrow> real \<Rightarrow> Cell list \<Rightarrow> Cell list \<Rightarrow> rng \<Rightarrow> Cell list \<times> rng" where
  "select_removed 0 fitness avgFitness removalCandidates removedCells g = (removedCells, g)"
| "select_removed (Suc k) fitness avgFitness removalCandidates removedCells g =
     (if removalCandidates = [] then (removedCells, g)
      else
        (let (ws, g1) = fitnessWeights fitness avgFitness removalCandidates g;
             totalWeight = sum_list ws;
             (r, g2) = draw g1
         in case pick_weighted (r * totalWeight) ws 0 of
              Some j \<Rightarrow> select_removed k fitness avgFitness (splice1 j removalCandidates)
                          (removedCells @ [removalCandidates ! j]) g2
            | None \<Rightarrow> select_removed k fitness avgFitness removalCandidates removedCells g2))"

text \<open>\<open>this.cells.indexOf(cell)\<close>, where \<open>None\<close> is \<open>-1\<close>.\<close>

primrec indexOf :: "Cell list \<Rightarrow> Cell \<Rightarrow> nat option" where
  "indexOf [] c = None"
| "indexOf (d # ds) c =
     (if cell_id d = cell_id c then Some 0 else map_option Suc (indexOf ds c))"

text \<open>
  \<open>removedCells.forEach(...)\<close>: every removed cell that is still in the array is
  turned into food and spliced out.
\<close>

primrec remove_cells :: "Cell list \<Rightarrow> sim \<Rightarrow> rng \<Rightarrow> sim \<times> rng" where
  "remove_cells [] s g = (s, g)"
| "remove_cells (c # cs) s g =
     (case indexOf (cells s) c of
        Some index \<Rightarrow>
          (let (fs, g1) = spawnFromDeath (width s) (height s) (Cell.posx c) (Cell.posy c)
                            (size_trait (traits c) * 2) (food s) g
           in remove_cells cs (s\<lparr> food := fs, cells := splice1 index (cells s) \<rparr>) g1)
      | None \<Rightarrow> remove_cells cs s g)"

text \<open>The removal rate (part_000 2678-2699).\<close>

definition removalRate :: "sim \<Rightarrow> bool \<Rightarrow> bool \<Rightarrow> real" where
  "removalRate s resourceScarcity overpopulation =
     (let currentCells = length (cells s);
          r0 = 0.05;
          r1 = (if currentCells < 80 then r0 * 0.4
                else if currentCells < 150 then r0 * 0.7 else r0);
          r2 = (if resourceScarcity \<and> overpopulation then min (r1 * 3) 0.12
                else if resourceScarcity then min (r1 * 1.6) 0.08
                else if overpopulation then min (r1 * 1.2) 0.06 else r1);
          r3 = (if toxicity s > 0.6 then r2 + 0.03 else r2);
          r4 = (if radiation s > 0.4 then r3 + 0.02 else r3);
          r5 = (if viruses_length s > 10 then r4 + 0.04 else r4)
      in r5)"

text \<open>
  \<open>applyNaturalSelection()\<close> (part_000 2648-2768). \<open>fitness\<close> stands for
  \<open>calculateEvolutionaryFitness\<close>, whose value the source stores in
  \<open>cell.fitnessScore\<close> before it sorts; the function is a parameter, so what is
  proved holds for every scoring. The sort is the stable sort by descending
  score.
\<close>

definition applyNaturalSelection ::
  "(Cell \<Rightarrow> real) \<Rightarrow> (nat \<Rightarrow> Colony) \<Rightarrow> sim \<Rightarrow> rng \<Rightarrow> sim \<times> rng" where
  "applyNaturalSelection fitness colonies s g =
     (let carryingCapacity = maxPopulation (settings s) * 0.85;
          currentFood = length (getFood (food s));
          currentCells = length (cells s);
          foodPerCell = js_div (real currentFood) (real currentCells);
          scarcityThreshold = (if currentCells < 100
                               then max 0.8 (1.5 - (100 - real currentCells) * 0.007)
                               else 1.5);
          resourceScarcity = js_below foodPerCell scarcityThreshold;
          overpopulation = real currentCells > carryingCapacity
      in if resourceScarcity \<or> overpopulation
         then
           (let sortedCells = sort_key (\<lambda>c. - fitness c) (cells s);
                rate = removalRate s resourceScarcity overpopulation;
                cellsToRemove = min \<lfloor>real currentCells * rate\<rfloor>
                                    (int currentCells - minPopulation (settings s));
                removalCandidates =
                  slice_last (nat \<lfloor>real (length sortedCells) * 0.4\<rfloor>)
                    (filter (\<lambda>c. \<not> protected fitness colonies s c) sortedCells);
                (removedCells, g1) =
                  select_removed (nat cellsToRemove) fitness (num_or (averageFitness s) 1)
                    removalCandidates [] g
            in remove_cells removedCells s g1)
         else (s, g))"

section \<open>The pass over the cells (\<open>Simulation.updateSingleStep\<close>, simulation.js 153-201)\<close>

text \<open>
  The objects that the pass mutates in place: the cells (\<open>cell_heap\<close>, under their
  ids), the colonies (\<open>colony_heap\<close>), the food array of the food manager
  (\<open>food_array\<close>) and the random stream (\<open>stream\<close>). The cell array \<open>this.cells\<close> is a
  list of ids; nothing changes it while the pass runs, so the pass takes it as
  an argument.
\<close>

record objects =
  cell_heap :: "nat \<Rightarrow> Cell"
  colony_heap :: "nat \<Rightarrow> Colony"
  food_array :: "Food list"
  stream :: rng

text \<open>
  What the pass collects: \<open>deadCells\<close> (the entries \<open>{cell, index}\<close>), \<open>newCells\<close> and
  \<open>maxGeneration\<close>. The field \<open>calls\<close> is not in the source: it lists the pairs
  \<open>(cell, other)\<close> for which \<open>handleCellInteraction\<close> was called, in order.
\<close>

record pass_state =
  objs :: objects
  deadCells :: "(nat \<times> nat) list"
  newCells :: "Cell list"
  maxGeneration :: int
  calls :: "(nat \<times> nat) list"

text \<open>
  Three callees are parameters of the pass, so that what is proved of the pass
  holds whatever they do to the objects:
  \<open>cell_update c cs\<close> is \<open>cell.update(this.cells, food, ...)\<close> and returns \<open>isAlive\<close>;
  \<open>interact c other\<close> is \<open>handleCellInteraction(cell, other)\<close>; \<open>new_Cell\<close> is the
  constructor \<open>new Cell(x, y, traits)\<close>. \<open>updateCellScore\<close>, which writes the round
  statistics of the cell, is left out.
\<close>

record pass_callees =
  cell_update :: "nat \<Rightarrow> nat list \<Rightarrow> objects \<Rightarrow> bool \<times> objects"
  interact :: "nat \<Rightarrow> nat \<Rightarrow> objects \<Rightarrow> objects"
  new_Cell :: "real \<Rightarrow> real \<Rightarrow> traits \<Rightarrow> rng \<Rightarrow> Cell \<times> rng"

text \<open>
  \<open>food.forEach(foodParticle => cell.eat(foodParticle))\<close>. \<open>food\<close> is the array of
  the particles that were not consumed when the tick began; \<open>eat\<close> does nothing
  to a consumed particle, so the loop runs over the whole food array here.
\<close>

definition eat_step :: "Cell \<times> Food list \<Rightarrow> Food \<Rightarrow> Cell \<times> Food list" where
  "eat_step cf f = (let (b, c', f') = eat (fst cf) f in (c', snd cf @ [f']))"

definition eat_all :: "nat \<Rightarrow> objects \<Rightarrow> objects" where
  "eat_all c ob =
     (let (c', fs) = foldl eat_step (cell_heap ob c, []) (food_array ob)
      in ob\<lparr> cell_heap := (cell_heap ob)(c := c'), food_array := fs \<rparr>)"

text \<open>
  One round of the inner loop
  \<open>this.cells.forEach(other => { if (other !== cell && cell.collidesWith(other)) ... })\<close>.
\<close>

definition meet ::
  "pass_callees \<Rightarrow> nat \<Rightarrow> objects \<times> (nat \<times> nat) list \<Rightarrow> nat \<Rightarrow> objects \<times> (nat \<times> nat) list" where
  "meet P c ol other =
     (if other \<noteq> c \<and> collidesWith (cell_heap (fst ol) c) (cell_heap (fst ol) other)
      then (interact P c other (fst ol), snd ol @ [(c, other)])
      else ol)"

text \<open>
  \<open>Cell.reproduce(mutationRate)\<close> (cell.js 2605-2620): \<open>null\<close> unless the flag is
  set. The name of the parent, passed on for the naming of the child, is left
  out.
\<close>

definition reproduce ::
  "pass_callees \<Rightarrow> real \<Rightarrow> Cell \<Rightarrow> rng \<Rightarrow> Cell option \<times> Cell \<times> rng" where
  "reproduce P mutationRate c g =
     (if \<not> reproduced c then (None, c, g)
      else
        (let c1 = c\<lparr> reproduced := False \<rparr>;
             (r, g1) = draw g;
             angle = r * pi * 2;
             distance = Cell.radius c1 * 3;
             childX = Cell.posx c1 + cos angle * distance;
             childY = Cell.posy c1 + sin angle * distance;
             (mutatedTraits, g2) = mutate mutationRate c1 g1;
             mutatedTraits' = mutatedTraits\<lparr> traits.generation := Some (Cell.generation c1 + 1) \<rparr>;
             (child, g3) = new_Cell P childX childY mutatedTraits' g2
         in (Some child, c1, g3)))"

text \<open>
  The body of \<open>this.cells.forEach((cell, index) => ...)\<close> for the cell \<open>c\<close> at
  \<open>index\<close>; \<open>cs\<close> is the cell array, \<open>maxCells\<close> and \<open>mutationRate\<close> are the settings.
\<close>

definition visit ::
  "pass_callees \<Rightarrow> nat \<Rightarrow> real \<Rightarrow> nat list \<Rightarrow> nat \<Rightarrow> nat \<Rightarrow> pass_state \<Rightarrow> pass_state" where
  "visit P maxCells mutationRate cs index c ps =
     (let (isAlive, o1) = cell_update P c cs (objs ps)
      in if \<not> isAlive \<or> health (traits (cell_heap o1 c)) \<le> 0
         then ps\<lparr> objs := o1, deadCells := deadCells ps @ [(c, index)] \<rparr>
         else
           (let o2 = eat_all c o1;
                (o3, log) = foldl (meet P c) (o2, calls ps) cs;
                ps3 = ps\<lparr> objs := o3, calls := log \<rparr>
            in if reproduced (cell_heap o3 c)
               then
                 (let (offspring, c', g') = reproduce P mutationRate (cell_heap o3 c) (stream o3);
                      ps4 = ps3\<lparr> objs := o3\<lparr> cell_heap := (cell_heap o3)(c := c'), stream := g' \<rparr> \<rparr>
                  in case offspring of
                       Some child \<Rightarrow>
                         if length cs < maxCells
                         then ps4\<lparr> newCells := newCells ps4 @ [child],
                                   maxGeneration := max (maxGeneration ps4) (Cell.generation child) \<rparr>
                         else ps4
                     | None \<Rightarrow> ps4)
               else ps3))"

text \<open>The loop from \<open>index\<close> on, over the cells that are left.\<close>

primrec pass_from ::
  "pass_callees \<Rightarrow> nat \<Rightarrow> real \<Rightarrow> nat list \<Rightarrow> nat \<Rightarrow> nat list \<Rightarrow> pass_state \<Rightarrow> pass_state" where
  "pass_from P maxCells mutationRate cs index [] ps = ps"
| "pass_from P maxCells mutationRate cs index (c # rest) ps =
     pass_from P maxCells mutationRate cs (Suc index) rest
       (visit P maxCells mutationRate cs index c ps)"

definition cell_pass ::
  "pass_callees \<Rightarrow> nat \<Rightarrow> real \<Rightarrow> int \<Rightarrow> nat list \<Rightarrow> objects \<Rightarrow> pass_state" where
  "cell_pass P maxCells mutationRate maxGeneration0 cs ob =
     pass_from P maxCells mutationRate cs 0 cs
       \<lparr> objs = ob, deadCells = [], newCells = [], maxGeneration = maxGeneration0, calls = [] \<rparr>"





section \<open>Sample values\<close>

text \<open>
  A cell as the constructor makes one (cell.js 200-341) with the random choices
  fixed, at age 350: the concrete input of the instances proved below.
\<close>

definition sample_traits :: traits where
  "sample_traits =
     \<lparr> health = 100, maxHealth = 100, size_trait = 10, speed = 1,
       energy = 90, maxEnergy = 100,
       shape = Some circle, defenseType = Some armor, specialAbility = Some none,
       metabolismType = Some normal, socialBehavior = Some solitary, lifestage = juvenile,
       temperatureTolerance = 0.5, acidTolerance = 0.5, radiationResistance = 0.3,
       visionRange = 60, communicationRange = 50, pheromoneProduction = 0.3,
       toxinResistance = 0.2, magneticSensitivity = 0.2, electrogenesis = 0.1,
       aggression = None, socialIntelligence = None, altruism = None,
       generation = None \<rparr>"

definition sample_cell :: "nat \<Rightarrow> real \<Rightarrow> real \<Rightarrow> Cell" where
  "sample_cell i x0 y0 =
     \<lparr> cell_id = i, posx = x0, posy = y0, vx = 0, vy = 0, traits = sample_traits,
       radius = 10, age = 350, generation = 1, reproduced = False, target = None,
       lastReproduction = 0, lastFoodTime = None, territory = None, colony = None, bonds = [], maxBonds = 4,
       bondStrength = Map.empty, isColonyFounder = False, colonyRole = adventurer,
       opacity = 1, defenseStates = \<lparr> poisonAura = 0, territoryRadius = 80, packMembers = [] \<rparr>,
       particleEffects = [] \<rparr>"

definition no_colonies :: "nat \<Rightarrow> Colony" where
  "no_colonies k =
     \<lparr> colony_id = k, members = [], founder = 0, bonds = [], sharedEnergy = 0 \<rparr>"

definition half_draws :: rng where
  "half_draws n = 1 / 2"

text \<open>The default settings of the continuous simulation (part_000 1327-1356).\<close>

definition default_settings :: settings where
  "default_settings = \<lparr> minPopulation = 75, maxPopulation = 3500, predationReproduction = True \<rparr>"






text \<open>
  Seven cells on a field without food, in a poisoned, irradiated and infected
  world whose settings allow five cells and require six.
\<close>

definition crowded_sim :: sim where
  "crowded_sim =
     \<lparr> cells = map (\<lambda>i. sample_cell i 0 0) [0 ..< 7], food = [], width = 1000, height = 700,
       viruses_length = 11,
       settings = \<lparr> minPopulation = 6, maxPopulation = 5, predationReproduction = True \<rparr>,
       toxicity = 0.7, radiation = 0.5, averageFitness = 0, simulationTime = None \<rparr>"

text \<open>Three cells under the default settings, which require 75.\<close>

definition sparse_sim :: sim where
  "sparse_sim =
     \<lparr> cells = map (\<lambda>i. sample_cell i 0 0) [0 ..< 3], food = [], width = 1000, height = 700,
       viruses_length = 0, settings = default_settings,
       toxicity = 0, radiation = 0, averageFitness = 0, simulationTime = None \<rparr>"






text \<open>
  The cells 1 and 2 bonded to each other, as \<open>createBond\<close> leaves them, in a
  colony that holds the bond in its map, and in one whose map is empty.
\<close>

definition bonded_heap :: "nat \<Rightarrow> Cell" where
  "bonded_heap i =
     (if i = 1 then (sample_cell 1 0 0)\<lparr> colony := Some 0, Cell.bonds := [2] \<rparr>
      else if i = 2 then (sample_cell 2 0 0)\<lparr> colony := Some 0, Cell.bonds := [1] \<rparr>
      else sample_cell i 0 0)"

definition bonded_colony :: Colony where
  "bonded_colony =
     \<lparr> colony_id = 0, members = [1, 2], founder = 1,
       bonds = [(''NaN_NaN'', \<lparr> cell1 = 2, cell2 = 1, strength = 1, age = 0 \<rparr>)],
       sharedEnergy = 0 \<rparr>"


text \<open>
  Stand-ins for the callees of the pass. \<open>metabolism_only\<close> does what
  \<open>Cell.update\<close> does to the energy of a cell before its death test (cell.js 485,
  497-498, 504-506): it ages the cell, subtracts \<open>calculateEnergyDrain()\<close> and
  reports whether energy and health are above 0. The interaction changes
  nothing, and the constructor returns a cell of id 100 with the given position
  and traits.
\<close>

definition calculateEnergyDrain :: "Cell \<Rightarrow> real" where
  "calculateEnergyDrain c =
     (let baseDrain = 0.1 + size_trait (traits c) * 0.01;
          d1 = (case metabolismType (traits c) of
                  Some efficient \<Rightarrow> baseDrain * 0.7
                | Some burst \<Rightarrow> baseDrain * 1.5
                | Some photosynthetic \<Rightarrow> baseDrain * 0.5
                | _ \<Rightarrow> baseDrain);
          shapeEfficiency = (case shape (traits c) of
                               Some circle \<Rightarrow> 1.0 | Some triangle \<Rightarrow> 0.9 | Some square \<Rightarrow> 1.1
                             | Some hexagon \<Rightarrow> 0.95 | Some oval \<Rightarrow> 1.05 | Some star \<Rightarrow> 1.2
                             | Some diamond \<Rightarrow> 1.0 | None \<Rightarrow> 1.0);
          d2 = d1 * shapeEfficiency
      in if lifestage (traits c) = juvenile then d2 * 0.8
         else if lifestage (traits c) = elder then d2 * 1.3 else d2)"

definition metabolism_only :: "nat \<Rightarrow> nat list \<Rightarrow> objects \<Rightarrow> bool \<times> objects" where
  "metabolism_only c cs ob =
     (let cell = cell_heap ob c;
          cell1 = cell\<lparr> Cell.age := Cell.age cell + 1,
                       traits := (traits cell)
                         \<lparr> energy := energy (traits cell) - calculateEnergyDrain cell \<rparr> \<rparr>
      in (\<not> (energy (traits cell1) \<le> 0 \<or> health (traits cell1) \<le> 0),
          ob\<lparr> cell_heap := (cell_heap ob)(c := cell1) \<rparr>))"

definition sample_callees :: pass_callees where
  "sample_callees =
     \<lparr> cell_update = metabolism_only,
       interact = (\<lambda>c other ob. ob),
       new_Cell = (\<lambda>x0 y0 t g. ((sample_cell 100 x0 y0)\<lparr> traits := t \<rparr>, g)) \<rparr>"

text \<open>
  The bonded cells 1 and 2 of the colony 0 at the same place, cell 1 with
  energy 0.1, on a field without food.
\<close>

definition starving_objects :: objects where
  "starving_objects =
     \<lparr> cell_heap = bonded_heap(1 := (bonded_heap 1)\<lparr> traits := sample_traits\<lparr> energy := 0.1 \<rparr> \<rparr>),
       colony_heap = (\<lambda>k. bonded_colony),
       food_array = [],
       stream = half_draws \<rparr>"


section \<open>Properties\<close>

subsection \<open>Rounding\<close>




































































subsection \<open>Food particles\<close>

text \<open>
  C9. A particle constructed with a size \<open>s\<close> other than 0 has the radius \<open>s\<close> and the
  energy value \<open>s \<times> 8\<close>, at the position given, not consumed and of age 0; with
  radius 6 the energy value is 48; and whatever the size argument is, the energy
  value is the radius times 8. \<open>update\<close> ages a particle that is not consumed by
  one tick, leaves \<open>maxAge\<close> and \<open>consumed\<close> as they are, and answers \<open>true\<close> exactly
  when the particle is not consumed and its age, after that tick, is at most
  \<open>maxAge\<close>; so it answers \<open>false\<close> exactly when the particle is consumed or
  \<open>age > maxAge\<close>.
\<close>

theorem Food_energy_and_expiry:
  "(s \<noteq> 0 \<longrightarrow>
      Food.radius (fst (new_Food x0 y0 (Some s) g)) = s
      \<and> energyValue (fst (new_Food x0 y0 (Some s) g)) = s * 8
      \<and> Food.posx (fst (new_Food x0 y0 (Some s) g)) = x0
      \<and> Food.posy (fst (new_Food x0 y0 (Some s) g)) = y0
      \<and> \<not> consumed (fst (new_Food x0 y0 (Some s) g))
      \<and> Food.age (fst (new_Food x0 y0 (Some s) g)) = 0)
   \<and> energyValue (fst (new_Food x0 y0 (Some 6) g)) = 48
   \<and> energyValue (fst (new_Food x0 y0 sz g)) = Food.radius (fst (new_Food x0 y0 sz g)) * 8
   \<and> Food.age (snd (Food_update f)) = (if consumed f then Food.age f else Food.age f + 1)
   \<and> maxAge (snd (Food_update f)) = maxAge f
   \<and> consumed (snd (Food_update f)) = consumed f
   \<and> fst (Food_update f) = (\<not> consumed f \<and> Food.age (snd (Food_update f)) \<le> maxAge f)
   \<and> (\<not> fst (Food_update f)) = (consumed f \<or> Food.age (snd (Food_update f)) > maxAge f)"
  by (auto simp: new_Food_def Food_update_def Let_def split_def split: option.splits)

theorem Food_energy_and_expiry_witness:
  "(6 :: real) \<noteq> 0
   \<and> Food.radius (fst (new_Food 0 0 (Some 6) half_draws)) = 6
   \<and> energyValue (fst (new_Food 0 0 (Some 6) half_draws)) = 48
   \<and> fst (Food_update (fst (new_Food 0 0 (Some 6) half_draws)))
   \<and> Food.age (snd (Food_update (fst (new_Food 0 0 (Some 6) half_draws)))) = 1
   \<and> \<not> fst (Food_update ((fst (new_Food 0 0 (Some 6) half_draws))\<lparr> Food.age := 2400 \<rparr>))"
  using Food_energy_and_expiry [of 6 0 0 half_draws "Some 6"
          "fst (new_Food 0 0 (Some 6) half_draws)"]
        Food_energy_and_expiry [of 6 0 0 half_draws "Some 6"
          "(fst (new_Food 0 0 (Some 6) half_draws))\<lparr> Food.age := 2400 \<rparr>"]
  by (simp add: new_Food_def draw_def half_draws_def Let_def split_def)

subsection \<open>The frame loop\<close>

text \<open>
  C10. With \<open>simulationSpeed \<le> 0\<close>, \<open>update\<close> returns the simulation as it was.
  With a positive speed it runs \<open>updateSingleStep\<close> exactly \<open>max(1, \<lfloor>speed\<rfloor>)\<close>
  times; when the speed has no fractional part that is all, and otherwise one
  draw is taken and decides whether one more whole step runs.
\<close>

theorem update_whole_steps:
  "(simulationSpeed sim \<le> 0 \<longrightarrow> update step sim = sim)
   \<and> (0 < simulationSpeed sim \<longrightarrow>
        (let k = nat (max 1 \<lfloor>simulationSpeed sim\<rfloor>);
             sim1 = run_steps step k sim;
             sim2 = sim1\<lparr> random_stream := snd (draw (random_stream sim1)) \<rparr>
         in 1 \<le> k \<and> (js_rem1 (simulationSpeed sim) = 0 \<longrightarrow> update step sim = sim1)
            \<and> (update step sim = sim1 \<or> update step sim = sim2 \<or> update step sim = step sim2)))"
  by (auto simp: update_def Let_def split_def)

theorem update_whole_steps_witness:
  "update (\<lambda>s. s\<lparr> world := Suc (world s) \<rparr>)
      \<lparr> simulationSpeed = 0, random_stream = (\<lambda>n. 1 / 4), world = 0 \<rparr>
    = \<lparr> simulationSpeed = 0, random_stream = (\<lambda>n. 1 / 4), world = 0 \<rparr>
   \<and> world (update (\<lambda>s. s\<lparr> world := Suc (world s) \<rparr>)
      \<lparr> simulationSpeed = 2, random_stream = (\<lambda>n. 1 / 4), world = 0 \<rparr>) = 2"
  using update_whole_steps [of "\<lparr> simulationSpeed = 0, random_stream = (\<lambda>n. 1 / 4), world = 0::nat \<rparr>"
                               "\<lambda>s. s\<lparr> world := Suc (world s) \<rparr>"]
        update_whole_steps [of "\<lparr> simulationSpeed = 2, random_stream = (\<lambda>n. 1 / 4), world = 0::nat \<rparr>"
                               "\<lambda>s. s\<lparr> world := Suc (world s) \<rparr>"]
  by (simp add: js_rem1_def numeral_2_eq_2 Let_def)
subsection \<open>Reproduction\<close>













subsection \<open>Mutation\<close>

lemma draw_unit: "unit_draws g \<Longrightarrow> fst (draw g) < 1 \<and> unit_draws (snd (draw g))"
  by (simp add: draw_def unit_draws_def)

lemma mutation_step_unit:
  assumes "\<And>t g. unit_draws g \<Longrightarrow> unit_draws (snd (body t g))"
    and "unit_draws (snd tg)"
  shows "unit_draws (snd (mutation_step p body tg))"
  using assms draw_unit [of "snd tg"] by (simp add: mutation_step_def split_def Let_def)

lemma mutation_step_frame:
  assumes "\<And>t g. F (fst (body t g)) = F t"
  shows "F (fst (mutation_step p body tg)) = F (fst tg)"
  using assms by (simp add: mutation_step_def split_def Let_def)

lemma mutation_step_sets:
  assumes "\<And>t g. P (fst (body t g))" and "unit_draws (snd tg)"
  shows "P (fst (mutation_step 1 body tg))"
  using assms draw_unit [of "snd tg"] by (simp add: mutation_step_def split_def Let_def)

lemmas mutate_bodies =
  mutate_size_def mutate_speed_def mutate_maxHealth_def mutate_maxEnergy_def
  mutate_shape_def mutate_defenseType_def mutate_specialAbility_def
  mutate_metabolismType_def mutate_socialBehavior_def mutate_temperatureTolerance_def
  mutate_acidTolerance_def mutate_radiationResistance_def mutate_visionRange_def
  mutate_communicationRange_def mutate_pheromoneProduction_def mutate_toxinResistance_def
  mutate_magneticSensitivity_def mutate_electrogenesis_def

lemma bodies_unit:
  assumes "unit_draws g"
  shows "unit_draws (snd (mutate_size t g))" "unit_draws (snd (mutate_speed t g))"
    "unit_draws (snd (mutate_maxHealth t g))" "unit_draws (snd (mutate_maxEnergy t g))"
    "unit_draws (snd (mutate_shape t g))" "unit_draws (snd (mutate_defenseType t g))"
    "unit_draws (snd (mutate_specialAbility t g))" "unit_draws (snd (mutate_metabolismType t g))"
    "unit_draws (snd (mutate_socialBehavior t g))"
    "unit_draws (snd (mutate_temperatureTolerance t g))"
    "unit_draws (snd (mutate_acidTolerance t g))"
    "unit_draws (snd (mutate_radiationResistance t g))"
    "unit_draws (snd (mutate_visionRange t g))" "unit_draws (snd (mutate_communicationRange t g))"
    "unit_draws (snd (mutate_pheromoneProduction t g))"
    "unit_draws (snd (mutate_toxinResistance t g))"
    "unit_draws (snd (mutate_magneticSensitivity t g))"
    "unit_draws (snd (mutate_electrogenesis t g))"
  using draw_unit [OF assms] by (simp_all add: mutate_bodies split_def Let_def)

lemma steps_unit:
  assumes "unit_draws (snd tg)"
  shows "unit_draws (snd (mutation_step p mutate_size tg))"
    "unit_draws (snd (mutation_step p mutate_speed tg))"
    "unit_draws (snd (mutation_step p mutate_maxHealth tg))"
    "unit_draws (snd (mutation_step p mutate_maxEnergy tg))"
    "unit_draws (snd (mutation_step p mutate_shape tg))"
    "unit_draws (snd (mutation_step p mutate_defenseType tg))"
    "unit_draws (snd (mutation_step p mutate_specialAbility tg))"
    "unit_draws (snd (mutation_step p mutate_metabolismType tg))"
    "unit_draws (snd (mutation_step p mutate_socialBehavior tg))"
    "unit_draws (snd (mutation_step p mutate_temperatureTolerance tg))"
    "unit_draws (snd (mutation_step p mutate_acidTolerance tg))"
    "unit_draws (snd (mutation_step p mutate_radiationResistance tg))"
    "unit_draws (snd (mutation_step p mutate_visionRange tg))"
    "unit_draws (snd (mutation_step p mutate_communicationRange tg))"
    "unit_draws (snd (mutation_step p mutate_pheromoneProduction tg))"
    "unit_draws (snd (mutation_step p mutate_toxinResistance tg))"
    "unit_draws (snd (mutation_step p mutate_magneticSensitivity tg))"
    "unit_draws (snd (mutation_step p mutate_electrogenesis tg))"
  using assms by (auto intro!: mutation_step_unit bodies_unit)

text \<open>A test and its body leave every trait but the body's own as it was.\<close>

lemma mutate_size_frame:
  "speed (fst (mutation_step p mutate_size tg)) = speed (fst tg)"
  "maxHealth (fst (mutation_step p mutate_size tg)) = maxHealth (fst tg)"
  "maxEnergy (fst (mutation_step p mutate_size tg)) = maxEnergy (fst tg)"
  "temperatureTolerance (fst (mutation_step p mutate_size tg)) = temperatureTolerance (fst tg)"
  "acidTolerance (fst (mutation_step p mutate_size tg)) = acidTolerance (fst tg)"
  "radiationResistance (fst (mutation_step p mutate_size tg)) = radiationResistance (fst tg)"
  "visionRange (fst (mutation_step p mutate_size tg)) = visionRange (fst tg)"
  "communicationRange (fst (mutation_step p mutate_size tg)) = communicationRange (fst tg)"
  "pheromoneProduction (fst (mutation_step p mutate_size tg)) = pheromoneProduction (fst tg)"
  "toxinResistance (fst (mutation_step p mutate_size tg)) = toxinResistance (fst tg)"
  "traits.generation (fst (mutation_step p mutate_size tg)) = traits.generation (fst tg)"
  by (simp_all add: mutation_step_def mutate_size_def split_def Let_def)

lemma mutate_speed_frame:
  "size_trait (fst (mutation_step p mutate_speed tg)) = size_trait (fst tg)"
  "maxHealth (fst (mutation_step p mutate_speed tg)) = maxHealth (fst tg)"
  "maxEnergy (fst (mutation_step p mutate_speed tg)) = maxEnergy (fst tg)"
  "temperatureTolerance (fst (mutation_step p mutate_speed tg)) = temperatureTolerance (fst tg)"
  "acidTolerance (fst (mutation_step p mutate_speed tg)) = acidTolerance (fst tg)"
  "radiationResistance (fst (mutation_step p mutate_speed tg)) = radiationResistance (fst tg)"
  "visionRange (fst (mutation_step p mutate_speed tg)) = visionRange (fst tg)"
  "communicationRange (fst (mutation_step p mutate_speed tg)) = communicationRange (fst tg)"
  "pheromoneProduction (fst (mutation_step p mutate_speed tg)) = pheromoneProduction (fst tg)"
  "toxinResistance (fst (mutation_step p mutate_speed tg)) = toxinResistance (fst tg)"
  "traits.generation (fst (mutation_step p mutate_speed tg)) = traits.generation (fst tg)"
  by (simp_all add: mutation_step_def mutate_speed_def split_def Let_def)

lemma mutate_maxHealth_frame:
  "size_trait (fst (mutation_step p mutate_maxHealth tg)) = size_trait (fst tg)"
  "speed (fst (mutation_step p mutate_maxHealth tg)) = speed (fst tg)"
  "maxEnergy (fst (mutation_step p mutate_maxHealth tg)) = maxEnergy (fst tg)"
  "temperatureTolerance (fst (mutation_step p mutate_maxHealth tg)) = temperatureTolerance (fst tg)"
  "acidTolerance (fst (mutation_step p mutate_maxHealth tg)) = acidTolerance (fst tg)"
  "radiationResistance (fst (mutation_step p mutate_maxHealth tg)) = radiationResistance (fst tg)"
  "visionRange (fst (mutation_step p mutate_maxHealth tg)) = visionRange (fst tg)"
  "communicationRange (fst (mutation_step p mutate_maxHealth tg)) = communicationRange (fst tg)"
  "pheromoneProduction (fst (mutation_step p mutate_maxHealth tg)) = pheromoneProduction (fst tg)"
  "toxinResistance (fst (mutation_step p mutate_maxHealth tg)) = toxinResistance (fst tg)"
  "traits.generation (fst (mutation_step p mutate_maxHealth tg)) = traits.generation (fst tg)"
  by (simp_all add: mutation_step_def mutate_maxHealth_def split_def Let_def)

lemma mutate_maxEnergy_frame:
  "size_trait (fst (mutation_step p mutate_maxEnergy tg)) = size_trait (fst tg)"
  "speed (fst (mutation_step p mutate_maxEnergy tg)) = speed (fst tg)"
  "maxHealth (fst (mutation_step p mutate_maxEnergy tg)) = maxHealth (fst tg)"
  "temperatureTolerance (fst (mutation_step p mutate_maxEnergy tg)) = temperatureTolerance (fst tg)"
  "acidTolerance (fst (mutation_step p mutate_maxEnergy tg)) = acidTolerance (fst tg)"
  "radiationResistance (fst (mutation_step p mutate_maxEnergy tg)) = radiationResistance (fst tg)"
  "visionRange (fst (mutation_step p mutate_maxEnergy tg)) = visionRange (fst tg)"
  "communicationRange (fst (mutation_step p mutate_maxEnergy tg)) = communicationRange (fst tg)"
  "pheromoneProduction (fst (mutation_step p mutate_maxEnergy tg)) = pheromoneProduction (fst tg)"
  "toxinResistance (fst (mutation_step p mutate_maxEnergy tg)) = toxinResistance (fst tg)"
  "traits.generation (fst (mutation_step p mutate_maxEnergy tg)) = traits.generation (fst tg)"
  by (simp_all add: mutation_step_def mutate_maxEnergy_def split_def Let_def)

lemma mutate_shape_frame:
  "size_trait (fst (mutation_step p mutate_shape tg)) = size_trait (fst tg)"
  "speed (fst (mutation_step p mutate_shape tg)) = speed (fst tg)"
  "maxHealth (fst (mutation_step p mutate_shape tg)) = maxHealth (fst tg)"
  "maxEnergy (fst (mutation_step p mutate_shape tg)) = maxEnergy (fst tg)"
  "temperatureTolerance (fst (mutation_step p mutate_shape tg)) = temperatureTolerance (fst tg)"
  "acidTolerance (fst (mutation_step p mutate_shape tg)) = acidTolerance (fst tg)"
  "radiationResistance (fst (mutation_step p mutate_shape tg)) = radiationResistance (fst tg)"
  "visionRange (fst (mutation_step p mutate_shape tg)) = visionRange (fst tg)"
  "communicationRange (fst (mutation_step p mutate_shape tg)) = communicationRange (fst tg)"
  "pheromoneProduction (fst (mutation_step p mutate_shape tg)) = pheromoneProduction (fst tg)"
  "toxinResistance (fst (mutation_step p mutate_shape tg)) = toxinResistance (fst tg)"
  "traits.generation (fst (mutation_step p mutate_shape tg)) = traits.generation (fst tg)"
  by (simp_all add: mutation_step_def mutate_shape_def split_def Let_def)

lemma mutate_defenseType_frame:
  "size_trait (fst (mutation_step p mutate_defenseType tg)) = size_trait (fst tg)"
  "speed (fst (mutation_step p mutate_defenseType tg)) = speed (fst tg)"
  "maxHealth (fst (mutation_step p mutate_defenseType tg)) = maxHealth (fst tg)"
  "maxEnergy (fst (mutation_step p mutate_defenseType tg)) = maxEnergy (fst tg)"
  "temperatureTolerance (fst (mutation_step p mutate_defenseType tg)) = temperatureTolerance (fst tg)"
  "acidTolerance (fst (mutation_step p mutate_defenseType tg)) = acidTolerance (fst tg)"
  "radiationResistance (fst (mutation_step p mutate_defenseType tg)) = radiationResistance (fst tg)"
  "visionRange (fst (mutation_step p mutate_defenseType tg)) = visionRange (fst tg)"
  "communicationRange (fst (mutation_step p mutate_defenseType tg)) = communicationRange (fst tg)"
  "pheromoneProduction (fst (mutation_step p mutate_defenseType tg)) = pheromoneProduction (fst tg)"
  "toxinResistance (fst (mutation_step p mutate_defenseType tg)) = toxinResistance (fst tg)"
  "traits.generation (fst (mutation_step p mutate_defenseType tg)) = traits.generation (fst tg)"
  by (simp_all add: mutation_step_def mutate_defenseType_def split_def Let_def)

lemma mutate_specialAbility_frame:
  "size_trait (fst (mutation_step p mutate_specialAbility tg)) = size_trait (fst tg)"
  "speed (fst (mutation_step p mutate_specialAbility tg)) = speed (fst tg)"
  "maxHealth (fst (mutation_step p mutate_specialAbility tg)) = maxHealth (fst tg)"
  "maxEnergy (fst (mutation_step p mutate_specialAbility tg)) = maxEnergy (fst tg)"
  "temperatureTolerance (fst (mutation_step p mutate_specialAbility tg)) = temperatureTolerance (fst tg)"
  "acidTolerance (fst (mutation_step p mutate_specialAbility tg)) = acidTolerance (fst tg)"
  "radiationResistance (fst (mutation_step p mutate_specialAbility tg)) = radiationResistance (fst tg)"
  "visionRange (fst (mutation_step p mutate_specialAbility tg)) = visionRange (fst tg)"
  "communicationRange (fst (mutation_step p mutate_specialAbility tg)) = communicationRange (fst tg)"
  "pheromoneProduction (fst (mutation_step p mutate_specialAbility tg)) = pheromoneProduction (fst tg)"
  "toxinResistance (fst (mutation_step p mutate_specialAbility tg)) = toxinResistance (fst tg)"
  "traits.generation (fst (mutation_step p mutate_specialAbility tg)) = traits.generation (fst tg)"
  by (simp_all add: mutation_step_def mutate_specialAbility_def split_def Let_def)

lemma mutate_metabolismType_frame:
  "size_trait (fst (mutation_step p mutate_metabolismType tg)) = size_trait (fst tg)"
  "speed (fst (mutation_step p mutate_metabolismType tg)) = speed (fst tg)"
  "maxHealth (fst (mutation_step p mutate_metabolismType tg)) = maxHealth (fst tg)"
  "maxEnergy (fst (mutation_step p mutate_metabolismType tg)) = maxEnergy (fst tg)"
  "temperatureTolerance (fst (mutation_step p mutate_metabolismType tg)) = temperatureTolerance (fst tg)"
  "acidTolerance (fst (mutation_step p mutate_metabolismType tg)) = acidTolerance (fst tg)"
  "radiationResistance (fst (mutation_step p mutate_metabolismType tg)) = radiationResistance (fst tg)"
  "visionRange (fst (mutation_step p mutate_metabolismType tg)) = visionRange (fst tg)"
  "communicationRange (fst (mutation_step p mutate_metabolismType tg)) = communicationRange (fst tg)"
  "pheromoneProduction (fst (mutation_step p mutate_metabolismType tg)) = pheromoneProduction (fst tg)"
  "toxinResistance (fst (mutation_step p mutate_metabolismType tg)) = toxinResistance (fst tg)"
  "traits.generation (fst (mutation_step p mutate_metabolismType tg)) = traits.generation (fst tg)"
  by (simp_all add: mutation_step_def mutate_metabolismType_def split_def Let_def)

lemma mutate_socialBehavior_frame:
  "size_trait (fst (mutation_step p mutate_socialBehavior tg)) = size_trait (fst tg)"
  "speed (fst (mutation_step p mutate_socialBehavior tg)) = speed (fst tg)"
  "maxHealth (fst (mutation_step p mutate_socialBehavior tg)) = maxHealth (fst tg)"
  "maxEnergy (fst (mutation_step p mutate_socialBehavior tg)) = maxEnergy (fst tg)"
  "temperatureTolerance (fst (mutation_step p mutate_socialBehavior tg)) = temperatureTolerance (fst tg)"
  "acidTolerance (fst (mutation_step p mutate_socialBehavior tg)) = acidTolerance (fst tg)"
  "radiationResistance (fst (mutation_step p mutate_socialBehavior tg)) = radiationResistance (fst tg)"
  "visionRange (fst (mutation_step p mutate_socialBehavior tg)) = visionRange (fst tg)"
  "communicationRange (fst (mutation_step p mutate_socialBehavior tg)) = communicationRange (fst tg)"
  "pheromoneProduction (fst (mutation_step p mutate_socialBehavior tg)) = pheromoneProduction (fst tg)"
  "toxinResistance (fst (mutation_step p mutate_socialBehavior tg)) = toxinResistance (fst tg)"
  "traits.generation (fst (mutation_step p mutate_socialBehavior tg)) = traits.generation (fst tg)"
  by (simp_all add: mutation_step_def mutate_socialBehavior_def split_def Let_def)

lemma mutate_temperatureTolerance_frame:
  "size_trait (fst (mutation_step p mutate_temperatureTolerance tg)) = size_trait (fst tg)"
  "speed (fst (mutation_step p mutate_temperatureTolerance tg)) = speed (fst tg)"
  "maxHealth (fst (mutation_step p mutate_temperatureTolerance tg)) = maxHealth (fst tg)"
  "maxEnergy (fst (mutation_step p mutate_temperatureTolerance tg)) = maxEnergy (fst tg)"
  "acidTolerance (fst (mutation_step p mutate_temperatureTolerance tg)) = acidTolerance (fst tg)"
  "radiationResistance (fst (mutation_step p mutate_temperatureTolerance tg)) = radiationResistance (fst tg)"
  "visionRange (fst (mutation_step p mutate_temperatureTolerance tg)) = visionRange (fst tg)"
  "communicationRange (fst (mutation_step p mutate_temperatureTolerance tg)) = communicationRange (fst tg)"
  "pheromoneProduction (fst (mutation_step p mutate_temperatureTolerance tg)) = pheromoneProduction (fst tg)"
  "toxinResistance (fst (mutation_step p mutate_temperatureTolerance tg)) = toxinResistance (fst tg)"
  "traits.generation (fst (mutation_step p mutate_temperatureTolerance tg)) = traits.generation (fst tg)"
  by (simp_all add: mutation_step_def mutate_temperatureTolerance_def split_def Let_def)

lemma mutate_acidTolerance_frame:
  "size_trait (fst (mutation_step p mutate_acidTolerance tg)) = size_trait (fst tg)"
  "speed (fst (mutation_step p mutate_acidTolerance tg)) = speed (fst tg)"
  "maxHealth (fst (mutation_step p mutate_acidTolerance tg)) = maxHealth (fst tg)"
  "maxEnergy (fst (mutation_step p mutate_acidTolerance tg)) = maxEnergy (fst tg)"
  "temperatureTolerance (fst (mutation_step p mutate_acidTolerance tg)) = temperatureTolerance (fst tg)"
  "radiationResistance (fst (mutation_step p mutate_acidTolerance tg)) = radiationResistance (fst tg)"
  "visionRange (fst (mutation_step p mutate_acidTolerance tg)) = visionRange (fst tg)"
  "communicationRange (fst (mutation_step p mutate_acidTolerance tg)) = communicationRange (fst tg)"
  "pheromoneProduction (fst (mutation_step p mutate_acidTolerance tg)) = pheromoneProduction (fst tg)"
  "toxinResistance (fst (mutation_step p mutate_acidTolerance tg)) = toxinResistance (fst tg)"
  "traits.generation (fst (mutation_step p mutate_acidTolerance tg)) = traits.generation (fst tg)"
  by (simp_all add: mutation_step_def mutate_acidTolerance_def split_def Let_def)

lemma mutate_radiationResistance_frame:
  "size_trait (fst (mutation_step p mutate_radiationResistance tg)) = size_trait (fst tg)"
  "speed (fst (mutation_step p mutate_radiationResistance tg)) = speed (fst tg)"
  "maxHealth (fst (mutation_step p mutate_radiationResistance tg)) = maxHealth (fst tg)"
  "maxEnergy (fst (mutation_step p mutate_radiationResistance tg)) = maxEnergy (fst tg)"
  "temperatureTolerance (fst (mutation_step p mutate_radiationResistance tg)) = temperatureTolerance (fst tg)"
  "acidTolerance (fst (mutation_step p mutate_radiationResistance tg)) = acidTolerance (fst tg)"
  "visionRange (fst (mutation_step p mutate_radiationResistance tg)) = visionRange (fst tg)"
  "communicationRange (fst (mutation_step p mutate_radiationResistance tg)) = communicationRange (fst tg)"
  "pheromoneProduction (fst (mutation_step p mutate_radiationResistance tg)) = pheromoneProduction (fst tg)"
  "toxinResistance (fst (mutation_step p mutate_radiationResistance tg)) = toxinResistance (fst tg)"
  "traits.generation (fst (mutation_step p mutate_radiationResistance tg)) = traits.generation (fst tg)"
  by (simp_all add: mutation_step_def mutate_radiationResistance_def split_def Let_def)

lemma mutate_visionRange_frame:
  "size_trait (fst (mutation_step p mutate_visionRange tg)) = size_trait (fst tg)"
  "speed (fst (mutation_step p mutate_visionRange tg)) = speed (fst tg)"
  "maxHealth (fst (mutation_step p mutate_visionRange tg)) = maxHealth (fst tg)"
  "maxEnergy (fst (mutation_step p mutate_visionRange tg)) = maxEnergy (fst tg)"
  "temperatureTolerance (fst (mutation_step p mutate_visionRange tg)) = temperatureTolerance (fst tg)"
  "acidTolerance (fst (mutation_step p mutate_visionRange tg)) = acidTolerance (fst tg)"
  "radiationResistance (fst (mutation_step p mutate_visionRange tg)) = radiationResistance (fst tg)"
  "communicationRange (fst (mutation_step p mutate_visionRange tg)) = communicationRange (fst tg)"
  "pheromoneProduction (fst (mutation_step p mutate_visionRange tg)) = pheromoneProduction (fst tg)"
  "toxinResistance (fst (mutation_step p mutate_visionRange tg)) = toxinResistance (fst tg)"
  "traits.generation (fst (mutation_step p mutate_visionRange tg)) = traits.generation (fst tg)"
  by (simp_all add: mutation_step_def mutate_visionRange_def split_def Let_def)

lemma mutate_communicationRange_frame:
  "size_trait (fst (mutation_step p mutate_communicationRange tg)) = size_trait (fst tg)"
  "speed (fst (mutation_step p mutate_communicationRange tg)) = speed (fst tg)"
  "maxHealth (fst (mutation_step p mutate_communicationRange tg)) = maxHealth (fst tg)"
  "maxEnergy (fst (mutation_step p mutate_communicationRange tg)) = maxEnergy (fst tg)"
  "temperatureTolerance (fst (mutation_step p mutate_communicationRange tg)) = temperatureTolerance (fst tg)"
  "acidTolerance (fst (mutation_step p mutate_communicationRange tg)) = acidTolerance (fst tg)"
  "radiationResistance (fst (mutation_step p mutate_communicationRange tg)) = radiationResistance (fst tg)"
  "visionRange (fst (mutation_step p mutate_communicationRange tg)) = visionRange (fst tg)"
  "pheromoneProduction (fst (mutation_step p mutate_communicationRange tg)) = pheromoneProduction (fst tg)"
  "toxinResistance (fst (mutation_step p mutate_communicationRange tg)) = toxinResistance (fst tg)"
  "traits.generation (fst (mutation_step p mutate_communicationRange tg)) = traits.generation (fst tg)"
  by (simp_all add: mutation_step_def mutate_communicationRange_def split_def Let_def)

lemma mutate_pheromoneProduction_frame:
  "size_trait (fst (mutation_step p mutate_pheromoneProduction tg)) = size_trait (fst tg)"
  "speed (fst (mutation_step p mutate_pheromoneProduction tg)) = speed (fst tg)"
  "maxHealth (fst (mutation_step p mutate_pheromoneProduction tg)) = maxHealth (fst tg)"
  "maxEnergy (fst (mutation_step p mutate_pheromoneProduction tg)) = maxEnergy (fst tg)"
  "temperatureTolerance (fst (mutation_step p mutate_pheromoneProduction tg)) = temperatureTolerance (fst tg)"
  "acidTolerance (fst (mutation_step p mutate_pheromoneProduction tg)) = acidTolerance (fst tg)"
  "radiationResistance (fst (mutation_step p mutate_pheromoneProduction tg)) = radiationResistance (fst tg)"
  "visionRange (fst (mutation_step p mutate_pheromoneProduction tg)) = visionRange (fst tg)"
  "communicationRange (fst (mutation_step p mutate_pheromoneProduction tg)) = communicationRange (fst tg)"
  "toxinResistance (fst (mutation_step p mutate_pheromoneProduction tg)) = toxinResistance (fst tg)"
  "traits.generation (fst (mutation_step p mutate_pheromoneProduction tg)) = traits.generation (fst tg)"
  by (simp_all add: mutation_step_def mutate_pheromoneProduction_def split_def Let_def)

lemma mutate_toxinResistance_frame:
  "size_trait (fst (mutation_step p mutate_toxinResistance tg)) = size_trait (fst tg)"
  "speed (fst (mutation_step p mutate_toxinResistance tg)) = speed (fst tg)"
  "maxHealth (fst (mutation_step p mutate_toxinResistance tg)) = maxHealth (fst tg)"
  "maxEnergy (fst (mutation_step p mutate_toxinResistance tg)) = maxEnergy (fst tg)"
  "temperatureTolerance (fst (mutation_step p mutate_toxinResistance tg)) = temperatureTolerance (fst tg)"
  "acidTolerance (fst (mutation_step p mutate_toxinResistance tg)) = acidTolerance (fst tg)"
  "radiationResistance (fst (mutation_step p mutate_toxinResistance tg)) = radiationResistance (fst tg)"
  "visionRange (fst (mutation_step p mutate_toxinResistance tg)) = visionRange (fst tg)"
  "communicationRange (fst (mutation_step p mutate_toxinResistance tg)) = communicationRange (fst tg)"
  "pheromoneProduction (fst (mutation_step p mutate_toxinResistance tg)) = pheromoneProduction (fst tg)"
  "traits.generation (fst (mutation_step p mutate_toxinResistance tg)) = traits.generation (fst tg)"
  by (simp_all add: mutation_step_def mutate_toxinResistance_def split_def Let_def)

lemma mutate_magneticSensitivity_frame:
  "size_trait (fst (mutation_step p mutate_magneticSensitivity tg)) = size_trait (fst tg)"
  "speed (fst (mutation_step p mutate_magneticSensitivity tg)) = speed (fst tg)"
  "maxHealth (fst (mutation_step p mutate_magneticSensitivity tg)) = maxHealth (fst tg)"
  "maxEnergy (fst (mutation_step p mutate_magneticSensitivity tg)) = maxEnergy (fst tg)"
  "temperatureTolerance (fst (mutation_step p mutate_magneticSensitivity tg)) = temperatureTolerance (fst tg)"
  "acidTolerance (fst (mutation_step p mutate_magneticSensitivity tg)) = acidTolerance (fst tg)"
  "radiationResistance (fst (mutation_step p mutate_magneticSensitivity tg)) = radiationResistance (fst tg)"
  "visionRange (fst (mutation_step p mutate_magneticSensitivity tg)) = visionRange (fst tg)"
  "communicationRange (fst (mutation_step p mutate_magneticSensitivity tg)) = communicationRange (fst tg)"
  "pheromoneProduction (fst (mutation_step p mutate_magneticSensitivity tg)) = pheromoneProduction (fst tg)"
  "toxinResistance (fst (mutation_step p mutate_magneticSensitivity tg)) = toxinResistance (fst tg)"
  "traits.generation (fst (mutation_step p mutate_magneticSensitivity tg)) = traits.generation (fst tg)"
  by (simp_all add: mutation_step_def mutate_magneticSensitivity_def split_def Let_def)

lemma mutate_electrogenesis_frame:
  "size_trait (fst (mutation_step p mutate_electrogenesis tg)) = size_trait (fst tg)"
  "speed (fst (mutation_step p mutate_electrogenesis tg)) = speed (fst tg)"
  "maxHealth (fst (mutation_step p mutate_electrogenesis tg)) = maxHealth (fst tg)"
  "maxEnergy (fst (mutation_step p mutate_electrogenesis tg)) = maxEnergy (fst tg)"
  "temperatureTolerance (fst (mutation_step p mutate_electrogenesis tg)) = temperatureTolerance (fst tg)"
  "acidTolerance (fst (mutation_step p mutate_electrogenesis tg)) = acidTolerance (fst tg)"
  "radiationResistance (fst (mutation_step p mutate_electrogenesis tg)) = radiationResistance (fst tg)"
  "visionRange (fst (mutation_step p mutate_electrogenesis tg)) = visionRange (fst tg)"
  "communicationRange (fst (mutation_step p mutate_electrogenesis tg)) = communicationRange (fst tg)"
  "pheromoneProduction (fst (mutation_step p mutate_electrogenesis tg)) = pheromoneProduction (fst tg)"
  "toxinResistance (fst (mutation_step p mutate_electrogenesis tg)) = toxinResistance (fst tg)"
  "traits.generation (fst (mutation_step p mutate_electrogenesis tg)) = traits.generation (fst tg)"
  by (simp_all add: mutation_step_def mutate_electrogenesis_def split_def Let_def)

lemmas mutate_frames =
  mutate_size_frame
  mutate_speed_frame
  mutate_maxHealth_frame
  mutate_maxEnergy_frame
  mutate_shape_frame
  mutate_defenseType_frame
  mutate_specialAbility_frame
  mutate_metabolismType_frame
  mutate_socialBehavior_frame
  mutate_temperatureTolerance_frame
  mutate_acidTolerance_frame
  mutate_radiationResistance_frame
  mutate_visionRange_frame
  mutate_communicationRange_frame
  mutate_pheromoneProduction_frame
  mutate_toxinResistance_frame
  mutate_magneticSensitivity_frame
  mutate_electrogenesis_frame

text \<open>At rate 1 the test succeeds on every draw below 1, and the body clamps.\<close>

lemma mutate_clamps:
  assumes "unit_draws (snd tg)"
  shows "4 \<le> size_trait (fst (mutation_step 1 mutate_size tg)) \<and> size_trait (fst (mutation_step 1 mutate_size tg)) \<le> 20"
    "0.2 \<le> speed (fst (mutation_step 1 mutate_speed tg)) \<and> speed (fst (mutation_step 1 mutate_speed tg)) \<le> 3.0"
    "40 \<le> maxHealth (fst (mutation_step 1 mutate_maxHealth tg)) \<and> maxHealth (fst (mutation_step 1 mutate_maxHealth tg)) \<le> 160"
    "40 \<le> maxEnergy (fst (mutation_step 1 mutate_maxEnergy tg)) \<and> maxEnergy (fst (mutation_step 1 mutate_maxEnergy tg)) \<le> 120"
    "0.1 \<le> temperatureTolerance (fst (mutation_step 1 mutate_temperatureTolerance tg)) \<and> temperatureTolerance (fst (mutation_step 1 mutate_temperatureTolerance tg)) \<le> 0.9"
    "0.1 \<le> acidTolerance (fst (mutation_step 1 mutate_acidTolerance tg)) \<and> acidTolerance (fst (mutation_step 1 mutate_acidTolerance tg)) \<le> 0.9"
    "0.05 \<le> radiationResistance (fst (mutation_step 1 mutate_radiationResistance tg)) \<and> radiationResistance (fst (mutation_step 1 mutate_radiationResistance tg)) \<le> 0.8"
    "20 \<le> visionRange (fst (mutation_step 1 mutate_visionRange tg)) \<and> visionRange (fst (mutation_step 1 mutate_visionRange tg)) \<le> 120"
    "15 \<le> communicationRange (fst (mutation_step 1 mutate_communicationRange tg)) \<and> communicationRange (fst (mutation_step 1 mutate_communicationRange tg)) \<le> 100"
    "0 \<le> pheromoneProduction (fst (mutation_step 1 mutate_pheromoneProduction tg)) \<and> pheromoneProduction (fst (mutation_step 1 mutate_pheromoneProduction tg)) \<le> 0.8"
    "0 \<le> toxinResistance (fst (mutation_step 1 mutate_toxinResistance tg)) \<and> toxinResistance (fst (mutation_step 1 mutate_toxinResistance tg)) \<le> 0.9"
  using draw_unit [OF assms]
  by (simp_all add: mutation_step_def mutate_bodies split_def Let_def max_def min_def)

text \<open>
  C7. For every cell and every stream of draws from \<open>[0,1)\<close>, the trait object
  that \<open>mutate(1.0)\<close> returns has \<open>size\<close> in \<open>[4,20]\<close>, \<open>speed\<close> in \<open>[0.2,3.0]\<close>,
  \<open>maxHealth\<close> in \<open>[40,160]\<close>, \<open>maxEnergy\<close> in \<open>[40,120]\<close>, the temperature and acid
  tolerances in \<open>[0.1,0.9]\<close>, \<open>radiationResistance\<close> in \<open>[0.05,0.8]\<close>, \<open>visionRange\<close> in
  \<open>[20,120]\<close>, \<open>communicationRange\<close> in \<open>[15,100]\<close>, \<open>pheromoneProduction\<close> in
  \<open>[0,0.8]\<close> and \<open>toxinResistance\<close> in \<open>[0,0.9]\<close>, and its \<open>generation\<close> is the
  parent's plus one.
\<close>

theorem mutate_rate_one_in_bands:
  assumes "unit_draws g"
  shows "4 \<le> size_trait (fst (mutate 1 c g)) \<and> size_trait (fst (mutate 1 c g)) \<le> 20
       \<and> 0.2 \<le> speed (fst (mutate 1 c g)) \<and> speed (fst (mutate 1 c g)) \<le> 3.0
       \<and> 40 \<le> maxHealth (fst (mutate 1 c g)) \<and> maxHealth (fst (mutate 1 c g)) \<le> 160
       \<and> 40 \<le> maxEnergy (fst (mutate 1 c g)) \<and> maxEnergy (fst (mutate 1 c g)) \<le> 120
       \<and> 0.1 \<le> temperatureTolerance (fst (mutate 1 c g))
       \<and> temperatureTolerance (fst (mutate 1 c g)) \<le> 0.9
       \<and> 0.1 \<le> acidTolerance (fst (mutate 1 c g)) \<and> acidTolerance (fst (mutate 1 c g)) \<le> 0.9
       \<and> 0.05 \<le> radiationResistance (fst (mutate 1 c g))
       \<and> radiationResistance (fst (mutate 1 c g)) \<le> 0.8
       \<and> 20 \<le> visionRange (fst (mutate 1 c g)) \<and> visionRange (fst (mutate 1 c g)) \<le> 120
       \<and> 15 \<le> communicationRange (fst (mutate 1 c g))
       \<and> communicationRange (fst (mutate 1 c g)) \<le> 100
       \<and> 0 \<le> pheromoneProduction (fst (mutate 1 c g))
       \<and> pheromoneProduction (fst (mutate 1 c g)) \<le> 0.8
       \<and> 0 \<le> toxinResistance (fst (mutate 1 c g)) \<and> toxinResistance (fst (mutate 1 c g)) \<le> 0.9
       \<and> traits.generation (fst (mutate 1 c g)) = Some (Cell.generation c + 1)"
proof -
  let ?tg0 = "((traits c)\<lparr> traits.generation := Some (Cell.generation c + 1) \<rparr>, g)"
  have u0: "unit_draws (snd ?tg0)"
    using assms by simp
  note u = steps_unit
  note b = mutate_clamps
  show ?thesis
    unfolding mutate_def Let_def mutate_frames
    by (intro conjI b [THEN conjunct1] b [THEN conjunct2] u u0) simp
qed

theorem mutate_rate_one_in_bands_witness:
  "unit_draws half_draws
   \<and> 4 \<le> size_trait (fst (mutate 1 (sample_cell 0 0 0) half_draws))
   \<and> size_trait (fst (mutate 1 (sample_cell 0 0 0) half_draws)) \<le> 20
   \<and> traits.generation (fst (mutate 1 (sample_cell 0 0 0) half_draws)) = Some 2"
proof -
  have u: "unit_draws half_draws"
    by (simp add: unit_draws_def half_draws_def)
  show ?thesis
    using u mutate_rate_one_in_bands [OF u, of "sample_cell 0 0 0"]
    by (simp add: sample_cell_def)
qed

subsection \<open>Predation\<close>

lemma canPredate_iff:
  "canPredate predator prey =
     (size_trait (traits predator) \<ge> fl (size_trait (traits prey) * 2.0)
      \<and> health (traits predator) \<ge> fl (health (traits prey) * fl 1.2)
      \<and> or_default (aggression (traits predator)) (fl 0.3) \<ge> fl 0.4
      \<and> energy (traits predator) \<ge> fl (maxEnergy (traits predator) * fl 0.6)
      \<and> defenseType (traits prey) \<noteq> Some explosive
      \<and> \<not> (defenseType (traits prey) = Some poison
             \<and> toxinResistance (traits predator) < fl 0.7))"
  by (auto simp: canPredate_def)




subsection \<open>Natural selection\<close>

lemma splice1_length: "length xs \<le> Suc (length (splice1 j xs))"
  by (simp add: splice1_def)

lemma select_removed_length:
  "length (fst (select_removed k fitness avg cands removed g)) \<le> length removed + k"
proof (induction k arbitrary: cands removed g)
  case 0
  show ?case by simp
next
  case (Suc k)
  show ?case
  proof (cases "cands = []")
    case True
    then show ?thesis by simp
  next
    case False
    obtain ws g1 where w: "fitnessWeights fitness avg cands g = (ws, g1)"
      by (cases "fitnessWeights fitness avg cands g")
    obtain r g2 where d: "draw g1 = (r, g2)"
      by (cases "draw g1")
    show ?thesis
    proof (cases "pick_weighted (r * sum_list ws) ws 0")
      case None
      with False w d Suc.IH [of cands removed g2] show ?thesis by simp
    next
      case (Some j)
      with False w d Suc.IH [of "splice1 j cands" "removed @ [cands ! j]" g2]
      show ?thesis by simp
    qed
  qed
qed

lemma remove_cells_length:
  "length (cells s) \<le> length (cells (fst (remove_cells cs s g))) + length cs"
proof (induction cs arbitrary: s g)
  case Nil
  show ?case by simp
next
  case (Cons c cs)
  show ?case
  proof (cases "indexOf (cells s) c")
    case None
    with Cons.IH [of s g] show ?thesis by simp
  next
    case (Some index)
    obtain fs g1 where f: "spawnFromDeath (width s) (height s) (Cell.posx c) (Cell.posy c)
                            (size_trait (traits c) * 2) (food s) g = (fs, g1)"
      by (cases "spawnFromDeath (width s) (height s) (Cell.posx c) (Cell.posy c)
                            (size_trait (traits c) * 2) (food s) g")
    from Some f Cons.IH [of "s\<lparr> food := fs, cells := splice1 index (cells s) \<rparr>" g1]
      splice1_length [of "cells s" index]
    show ?thesis by simp
  qed
qed

lemma applyNaturalSelection_cases:
  "applyNaturalSelection fitness colonies s g = (s, g)
   \<or> (\<exists>cands g0 avg.
        applyNaturalSelection fitness colonies s g
        = remove_cells
            (fst (select_removed
               (nat (min \<lfloor>real (length (cells s))
                          * removalRate s
                              (js_below (js_div (real (length (getFood (food s))))
                                                (real (length (cells s))))
                                 (if length (cells s) < 100
                                  then max 0.8 (1.5 - (100 - real (length (cells s))) * 0.007)
                                  else 1.5))
                              (real (length (cells s)) > maxPopulation (settings s) * 0.85)\<rfloor>
                         (int (length (cells s)) - minPopulation (settings s))))
               fitness avg cands [] g))
            s g0)"
  unfolding applyNaturalSelection_def Let_def split_def
  by (cases "js_below (js_div (real (length (getFood (food s)))) (real (length (cells s))))
                 (if length (cells s) < 100
                  then max 0.8 (1.5 - (100 - real (length (cells s))) * 0.007) else 1.5)
             \<or> real (length (cells s)) > maxPopulation (settings s) * 0.85")
     (simp_all only: if_True if_False, blast+)


text \<open>
  C4. Natural selection does not take the population below the configured
  minimum: when the number of cells is at least \<open>settings.minPopulation\<close> before
  the call it is at least that after it, and when it is below the minimum the
  call leaves the cell array as it is. This holds for every scoring function,
  every state of the colonies and every stream of draws.
\<close>

theorem natural_selection_keeps_minimum:
  "(minPopulation (settings s) \<le> int (length (cells s)) \<longrightarrow>
      minPopulation (settings s)
        \<le> int (length (cells (fst (applyNaturalSelection fitness colonies s g)))))
   \<and> (int (length (cells s)) < minPopulation (settings s) \<longrightarrow>
        cells (fst (applyNaturalSelection fitness colonies s g)) = cells s)"
proof -
  from applyNaturalSelection_cases [of fitness colonies s g]
  consider "applyNaturalSelection fitness colonies s g = (s, g)"
    | quota cands g0 avg where
      "quota \<le> int (length (cells s)) - minPopulation (settings s)"
      "applyNaturalSelection fitness colonies s g
         = remove_cells (fst (select_removed (nat quota) fitness avg cands [] g)) s g0"
    by (metis min.cobounded2)
  then show ?thesis
  proof cases
    case 1
    then show ?thesis by simp
  next
    case 2
    let ?removed = "fst (select_removed (nat quota) fitness avg cands [] g)"
    have lr: "length ?removed \<le> nat quota"
      using select_removed_length [of "nat quota" fitness avg cands "[]" g] by simp
    have keep: "length (cells s)
                  \<le> length (cells (fst (applyNaturalSelection fitness colonies s g)))
                     + length ?removed"
      unfolding 2(2) by (rule remove_cells_length)
    show ?thesis
    proof (intro conjI impI)
      assume "minPopulation (settings s) \<le> int (length (cells s))"
      with lr 2(1) keep show "minPopulation (settings s)
          \<le> int (length (cells (fst (applyNaturalSelection fitness colonies s g))))"
        by linarith
    next
      assume "int (length (cells s)) < minPopulation (settings s)"
      with 2(1) have "nat quota = 0" by simp
      then show "cells (fst (applyNaturalSelection fitness colonies s g)) = cells s"
        unfolding 2(2) by simp
    qed
  qed
qed


theorem natural_selection_keeps_minimum_witness:
  "minPopulation (settings crowded_sim) \<le> int (length (cells crowded_sim))
   \<and> length (cells crowded_sim) = 7
   \<and> length (cells (fst (applyNaturalSelection (\<lambda>c. real (cell_id c)) no_colonies
                             crowded_sim half_draws))) = 6
   \<and> minPopulation (settings crowded_sim)
       \<le> int (length (cells (fst (applyNaturalSelection (\<lambda>c. real (cell_id c)) no_colonies
                                      crowded_sim half_draws))))
   \<and> int (length (cells sparse_sim)) < minPopulation (settings sparse_sim)
   \<and> cells (fst (applyNaturalSelection (\<lambda>c. real (cell_id c)) no_colonies
                    sparse_sim half_draws)) = cells sparse_sim"
proof -
  have a: "minPopulation (settings crowded_sim) \<le> int (length (cells crowded_sim))"
    and a': "length (cells crowded_sim) = 7"
    by (simp_all add: crowded_sim_def)
  have b: "int (length (cells sparse_sim)) < minPopulation (settings sparse_sim)"
    by (simp add: sparse_sim_def default_settings_def)
  have c: "length (cells (fst (applyNaturalSelection (\<lambda>c. real (cell_id c)) no_colonies
                                 crowded_sim half_draws))) = 6"
    by (simp add: applyNaturalSelection_def crowded_sim_def removalRate_def Let_def split_def
        slice_last_def protected_def num_or_def getFood_def js_div_def sample_cell_def
        upt_conv_Cons draw_def half_draws_def splice1_def no_colonies_def
        spawnFromDeath_def spawnFood_def new_Food_def numeral_eq_Suc)
  show ?thesis
    using a a' b c
      natural_selection_keeps_minimum [of crowded_sim "\<lambda>c. real (cell_id c)" no_colonies half_draws]
      natural_selection_keeps_minimum [of sparse_sim "\<lambda>c. real (cell_id c)" no_colonies half_draws]
    by simp
qed

subsection \<open>Bounds of health and energy\<close>











subsection \<open>Bond symmetry\<close>

lemma bond_symmetric_iff:
  "bond_symmetric ids heap
     = (\<forall>a \<in> set ids. \<forall>b \<in> set (Cell.bonds (heap a)). a \<in> set (Cell.bonds (heap b)))"
  by (simp add: bond_symmetric_def list_all_iff)

lemma createBond_bonds:
  "set (Cell.bonds (snd (snd (createBond col heap c1 c2)) a))
     = set (Cell.bonds (heap a))
       \<union> (if fst (createBond col heap c1 c2) \<and> a = c1 then {c2} else {})
       \<union> (if fst (createBond col heap c1 c2) \<and> a = c2 then {c1} else {})"
  by (auto simp: createBond_def Let_def)

lemma createBond_symmetric:
  assumes "bond_symmetric ids heap"
  shows "bond_symmetric ids (snd (snd (createBond col heap c1 c2)))"
  using assms unfolding bond_symmetric_iff createBond_bonds
  by (auto split: if_splits)

lemma unbond_symmetric:
  assumes "bond_symmetric ids heap"
  shows "bond_symmetric ids
           ((heap(c1 := (heap c1)\<lparr> Cell.bonds := filter (\<lambda>i. i \<noteq> c2) (Cell.bonds (heap c1)) \<rparr>))
              (c2 := ((heap(c1 := (heap c1)\<lparr> Cell.bonds := filter (\<lambda>i. i \<noteq> c2) (Cell.bonds (heap c1)) \<rparr>)) c2)
                       \<lparr> Cell.bonds := filter (\<lambda>i. i \<noteq> c1)
                            (Cell.bonds ((heap(c1 := (heap c1)\<lparr> Cell.bonds := filter (\<lambda>i. i \<noteq> c2) (Cell.bonds (heap c1)) \<rparr>)) c2)) \<rparr>))"
  using assms unfolding bond_symmetric_iff
  by (auto split: if_splits)

lemma bond_symmetric_cong:
  assumes "\<And>x. Cell.bonds (heap' x) = Cell.bonds (heap x)"
  shows "bond_symmetric ids heap' = bond_symmetric ids heap"
  by (simp add: bond_symmetric_iff assms)

lemma manage_bond_symmetric:
  assumes "bond_symmetric ids (snd ch)"
  shows "bond_symmetric ids (snd (manage_bond ch e))"
proof -
  let ?h = "snd ch"
  let ?c1 = "cell1 (snd e)" and ?c2 = "cell2 (snd e)"
  let ?h1 = "?h(?c1 := (?h ?c1)\<lparr> Cell.bonds := filter (\<lambda>i. i \<noteq> ?c2) (Cell.bonds (?h ?c1)) \<rparr>)"
  let ?h2 = "?h1(?c2 := (?h1 ?c2)\<lparr> Cell.bonds := filter (\<lambda>i. i \<noteq> ?c1) (Cell.bonds (?h1 ?c2)) \<rparr>)"
  have "(\<forall>x. Cell.bonds (snd (manage_bond ch e) x) = Cell.bonds (?h x))
        \<or> (\<forall>x. Cell.bonds (snd (manage_bond ch e) x) = Cell.bonds (?h2 x))"
    by (simp add: manage_bond_def Let_def)
  then show ?thesis
  proof
    assume "\<forall>x. Cell.bonds (snd (manage_bond ch e) x) = Cell.bonds (?h x)"
    then show ?thesis
      using assms bond_symmetric_cong [of "snd (manage_bond ch e)" ?h ids] by simp
  next
    assume "\<forall>x. Cell.bonds (snd (manage_bond ch e) x) = Cell.bonds (?h2 x)"
    then have "bond_symmetric ids (snd (manage_bond ch e)) = bond_symmetric ids ?h2"
      using bond_symmetric_cong [of "snd (manage_bond ch e)" ?h2 ids] by simp
    with unbond_symmetric [OF assms, of ?c1 ?c2] show ?thesis by simp
  qed
qed

lemma manage_bonds_loop_symmetric:
  "bond_symmetric ids (snd ch) \<Longrightarrow> bond_symmetric ids (snd (foldl manage_bond ch es))"
  by (induction es arbitrary: ch) (simp_all add: manage_bond_symmetric)

lemma manage_bonds_symmetric:
  "bond_symmetric ids heap \<Longrightarrow> bond_symmetric ids (snd (manage_bonds col heap))"
  unfolding manage_bonds_def using manage_bonds_loop_symmetric [of ids "(col, heap)"] by simp

lemma addMember_symmetric:
  assumes "bond_symmetric ids heap"
  shows "bond_symmetric ids (snd (snd (addMember col heap c bondWith)))"
proof -
  let ?h1 = "heap(c := (heap c)\<lparr> colony := Some (colony_id col) \<rparr>)"
  have h1: "bond_symmetric ids ?h1"
    using assms bond_symmetric_cong [of ?h1 heap ids] by simp
  show ?thesis
    using assms h1 createBond_symmetric [OF h1]
    by (simp add: addMember_def Let_def split_def split: option.splits)
qed



subsection \<open>The pass over the cells and the removal of the dead\<close>









lemma meet_log:
  "set (snd (foldl (meet P c) ol xs)) \<subseteq> set (snd ol) \<union> {c} \<times> set xs"
proof (induction xs arbitrary: ol)
  case Nil
  show ?case by simp
next
  case (Cons x xs)
  have "set (snd (meet P c ol x)) \<subseteq> set (snd ol) \<union> {c} \<times> {x}"
    by (auto simp: meet_def)
  with Cons.IH [of "meet P c ol x"] show ?case
    by auto
qed

lemma visit_calls:
  "set (calls (visit P mc mr cs index c ps)) \<subseteq> set (calls ps) \<union> {c} \<times> set cs"
  using meet_log [of P c "(eat_all c (snd (cell_update P c cs (objs ps))), calls ps)" cs]
  by (auto simp: visit_def Let_def split_def split: option.splits)


lemma pass_from_calls:
  "set (calls (pass_from P mc mr cs index rest ps)) \<subseteq> set (calls ps) \<union> set rest \<times> set cs"
proof (induction rest arbitrary: index ps)
  case Nil
  show ?case by simp
next
  case (Cons c rest)
  from Cons.IH [of "Suc index" "visit P mc mr cs index c ps"] visit_calls [of P mc mr cs index c ps]
  show ?case by auto
qed

lemma cell_pass_calls:
  "set (calls (cell_pass P mc mr mg cs ob)) \<subseteq> set cs \<times> set cs"
  using pass_from_calls [of P mc mr cs 0 cs
      "\<lparr> objs = ob, deadCells = [], newCells = [], maxGeneration = mg, calls = [] \<rparr>"]
  by (simp add: cell_pass_def)





lemma visit_marks_dead:
  "deadCells (visit P mc mr cs index c ps)
     = (if \<not> fst (cell_update P c cs (objs ps))
           \<or> health (traits (cell_heap (snd (cell_update P c cs (objs ps))) c)) \<le> 0
        then deadCells ps @ [(c, index)] else deadCells ps)"
  by (simp add: visit_def Let_def split_def split: option.splits)

lemmas starving_sample_defs =
  sample_callees_def metabolism_only_def calculateEnergyDrain_def starving_objects_def
  bonded_heap_def bonded_colony_def sample_cell_def sample_traits_def





text \<open>
  C8. In an array of two cells, let the update of the first cell report it dead,
  and let the second cell be alive after its own update and overlap the first
  one. Then the first cell is in \<open>deadCells\<close>, and the pass of the same tick still
  calls \<open>handleCellInteraction\<close> for the second cell and the dead one. (The
  calls of a pass only ever concern cells of the array as it was when the tick
  began, \<open>cell_pass_calls\<close>: offspring wait in \<open>newCells\<close>.)
\<close>

theorem dead_cell_still_meets:
  assumes "cell_update P a [a, b] ob = (False, o1)"
    and "cell_update P b [a, b] o1 = (True, o2)"
    and "0 < health (traits (cell_heap o2 b))"
    and "a \<noteq> b"
    and "collidesWith (cell_heap (eat_all b o2) b) (cell_heap (eat_all b o2) a)"
  shows "(a, 0) \<in> set (deadCells (cell_pass P mc mr mg [a, b] ob))
       \<and> (b, a) \<in> set (calls (cell_pass P mc mr mg [a, b] ob))"
  using assms
  by (simp add: cell_pass_def visit_def meet_def Let_def split_def split: option.splits)

theorem dead_cell_still_meets_witness:
  "\<not> fst (cell_update sample_callees 1 [1, 2] starving_objects)
   \<and> (1, 0) \<in> set (deadCells (cell_pass sample_callees 1000 0.1 1 [1, 2] starving_objects))
   \<and> (2, 1) \<in> set (calls (cell_pass sample_callees 1000 0.1 1 [1, 2] starving_objects))"
proof -
  let ?o1 = "snd (cell_update sample_callees 1 [1, 2] starving_objects)"
  let ?o2 = "snd (cell_update sample_callees 2 [1, 2] ?o1)"
  have dead: "\<not> fst (cell_update sample_callees 1 [1, 2] starving_objects)"
    by (simp add: starving_sample_defs Let_def split_def)
  then have 1: "cell_update sample_callees 1 [1, 2] starving_objects = (False, ?o1)"
    by (simp add: prod_eq_iff)
  have "fst (cell_update sample_callees 2 [1, 2] ?o1)"
    by (simp add: starving_sample_defs Let_def split_def)
  then have 2: "cell_update sample_callees 2 [1, 2] ?o1 = (True, ?o2)"
    by (simp add: prod_eq_iff)
  have 3: "0 < health (traits (cell_heap ?o2 2))"
    by (simp add: starving_sample_defs Let_def split_def)
  have 4: "(1 :: nat) \<noteq> 2"
    by simp
  have 5: "collidesWith (cell_heap (eat_all 2 ?o2) 2) (cell_heap (eat_all 2 ?o2) 1)"
    by (simp add: eat_all_def collidesWith_def starving_sample_defs Let_def split_def)
  from dead dead_cell_still_meets [OF 1 2 3 4 5, of 1000 "0.1" 1] show ?thesis
    by simp
qed

end
